theory Spec2Isabelle
  imports Complex_Main "HOL-Library.Word"
begin

section \<open>The remote bandwidth estimator (pkg/sfu/bwe/remotebwe/remote_bwe.go)\<close>

text \<open>
  The controller keeps the last receiver estimate, the last expected usage and the
  committed channel capacity, runs a three-state congestion state machine on every
  REMB feedback, and judges the outcome of bandwidth probes. Its methods are embedded
  as functions that take the controller record and return the updated one. The lock
  serialises the methods, so each method is one atomic step of the model.
\<close>

subsection \<open>Machine types\<close>

type_synonym int64 = "64 word"
type_synonym uint32 = "32 word"

text \<open>
  Times are readings of the monotonic clock in nanoseconds; a \<open>time.Duration\<close> is a
  count of nanoseconds. \<open>time.Since\<close> subtracts two readings and saturates at the
  ends of the 64-bit range, as \<open>Time.Sub\<close> does. The reading of the clock is an
  argument of every function that reads it.
\<close>

definition time_Since :: "int \<Rightarrow> int \<Rightarrow> int" where
  "time_Since now t = max (- (2 ^ 63)) (min (2 ^ 63 - 1) (now - t))"

subsection \<open>Enumerations\<close>

text \<open>
  Modelled from the spec: the enumerations \<open>bwe.CongestionState\<close> and \<open>bwe.ProbeSignal\<close>
  of package bwe, and \<open>channelTrend\<close> and \<open>channelCongestionReason\<close> of
  channel_observer.go, are declared outside remote_bwe.go. Their members are the ones
  section 3 of the specification lists; the third trend is its "improving" case.
\<close>

datatype CongestionState =
  CongestionStateNone | CongestionStateCongested | CongestionStateCongestedHangover

datatype ProbeSignal =
  ProbeSignalInconclusive | ProbeSignalCongesting | ProbeSignalClearing

datatype channelTrend =
  channelTrendNeutral | channelTrendClearing | channelTrendCongesting

datatype channelCongestionReason =
  channelCongestionReasonBandwidthEstimate | channelCongestionReasonLoss

subsection \<open>The logger\<close>

text \<open>
  \<open>params.Logger\<close> is modelled by the list of calls made on it, oldest first: the
  method called and the message. The key/value pairs of a call are left out.
\<close>

datatype logLevel = Debugw | Infow

type_synonym logEntry = "logLevel \<times> string"

subsection \<open>Configuration and controller state\<close>

text \<open>
  \<open>'f\<close> is the type of float64 values and \<open>'cfg\<close> the type \<open>ChannelObserverConfig\<close>,
  which is declared in channel_observer.go.
\<close>

record ('f, 'cfg) RemoteBWEConfig =
  NackRatioAttenuator :: 'f
  ExpectedUsageThreshold :: 'f
  ChannelObserverProbe :: 'cfg
  ChannelObserverNonProbe :: 'cfg
  CongestedMinDuration :: int
  PeriodicCheckInterval :: int
  PeriodicCheckIntervalCongested :: int

record ('f, 'cfg) RemoteBWEParams =
  Config :: "('f, 'cfg) RemoteBWEConfig"
  Logger :: "logEntry list"

record 'cfg channelObserverParams =
  Name :: string
  ObserverConfig :: 'cfg

text \<open>
  \<open>'co\<close> is the type of a channel observer and \<open>'l\<close> the type of a listener;
  a nil listener is \<open>None\<close>.
\<close>

record ('co, 'f, 'cfg, 'l) RemoteBWE =
  params :: "('f, 'cfg) RemoteBWEParams"
  lastReceivedEstimate :: int64
  lastExpectedBandwidthUsage :: int64
  committedChannelCapacity :: int64
  isInProbe :: bool
  channelObserver :: 'co
  congestionState :: CongestionState
  congestionStateSwitchedAt :: int
  bweListener :: "'l option"

text \<open>
  Modelled from the spec: \<open>ccutils.ProbeClusterInfo\<close> is declared in package ccutils;
  the only field the controller reads is the goal's expected usage, a 64-bit rate
  (section 6 of the specification).
\<close>

record ProbeClusterGoal =
  ExpectedUsageBps :: int64

record ProbeClusterInfo =
  Goal :: ProbeClusterGoal

subsection \<open>What the controller calls and does not define\<close>

text \<open>
  Modelled from the spec: the channel observer (channel_observer.go) is not part of
  remote_bwe.go. The controller uses the constructor and the seven methods of section
  4.2 of the specification; they are a parameter of every function below, so that
  what is proved holds for any channel observer. \<open>newObserver\<close> is the package
  function \<open>newChannelObserver\<close> (the method of \<open>RemoteBWE\<close> with the same name keeps
  it); the logger it is given is left out. The methods that add a sample return the
  updated observer, the queries are functions of the observer.
\<close>

record ('co, 'f, 'cfg) channelObserverOps =
  newObserver :: "'cfg channelObserverParams \<Rightarrow> 'co"
  SeedEstimate :: "'co \<Rightarrow> int64 \<Rightarrow> 'co"
  AddEstimate :: "'co \<Rightarrow> int64 \<Rightarrow> 'co"
  AddNack :: "'co \<Rightarrow> uint32 \<Rightarrow> uint32 \<Rightarrow> 'co"
  GetTrend :: "'co \<Rightarrow> channelTrend \<times> channelCongestionReason"
  GetNackRatio :: "'co \<Rightarrow> 'f"
  HasEnoughEstimateSamples :: "'co \<Rightarrow> bool"
  GetHighestEstimate :: "'co \<Rightarrow> int64"

text \<open>
  The float64 operations the commit algorithm uses: the conversions \<open>float64(x)\<close> and
  \<open>int64(x)\<close>, the constant \<open>1.0\<close>, product and difference. They are a parameter as
  well: nothing below depends on how the target rounds.
\<close>

record 'f float64Ops =
  f64_of_int64 :: "int64 \<Rightarrow> 'f"
  int64_of_f64 :: "'f \<Rightarrow> int64"
  f64_one :: 'f
  f64_mul :: "'f \<Rightarrow> 'f \<Rightarrow> 'f"
  f64_sub :: "'f \<Rightarrow> 'f \<Rightarrow> 'f"

subsection \<open>The methods of RemoteBWE\<close>

definition logw ::
  "logLevel \<Rightarrow> string \<Rightarrow> ('co, 'f, 'cfg, 'l) RemoteBWE \<Rightarrow> ('co, 'f, 'cfg, 'l) RemoteBWE" where
  "logw lvl msg r = r\<lparr>params := (params r)\<lparr>Logger := Logger (params r) @ [(lvl, msg)]\<rparr>\<rparr>"

definition newChannelObserver ::
  "('co, 'f, 'cfg) channelObserverOps \<Rightarrow> ('co, 'f, 'cfg, 'l) RemoteBWE
    \<Rightarrow> ('co, 'f, 'cfg, 'l) RemoteBWE" where
  "newChannelObserver ops r =
    (if isInProbe r then
       (let r1 = r\<lparr>channelObserver := newObserver ops
                   \<lparr>Name = ''probe'', ObserverConfig = ChannelObserverProbe (Config (params r))\<rparr>\<rparr>
        in r1\<lparr>channelObserver :=
                 SeedEstimate ops (channelObserver r1) (committedChannelCapacity r1)\<rparr>)
     else
       r\<lparr>channelObserver := newObserver ops
           \<lparr>Name = ''non-probe'', ObserverConfig = ChannelObserverNonProbe (Config (params r))\<rparr>\<rparr>)"

definition Reset ::
  "('co, 'f, 'cfg) channelObserverOps \<Rightarrow> int \<Rightarrow> ('co, 'f, 'cfg, 'l) RemoteBWE
    \<Rightarrow> ('co, 'f, 'cfg, 'l) RemoteBWE" where
  "Reset ops now r =
    (let r1 = r\<lparr>lastReceivedEstimate := 0,
                lastExpectedBandwidthUsage := 0,
                committedChannelCapacity := 100000000\<rparr>;
         r2 = r1\<lparr>isInProbe := False\<rparr>;
         r3 = newChannelObserver ops r2
     in r3\<lparr>congestionState := CongestionStateNone, congestionStateSwitchedAt := now\<rparr>)"

text \<open>
  \<open>NewRemoteBWE\<close> builds the zero value of the struct around the parameters and calls
  \<open>Reset\<close>. The zero value has a nil observer, which \<open>Reset\<close> replaces before anything
  reads it; the model starts from the observer that \<open>Reset\<close> installs.
\<close>

definition NewRemoteBWE ::
  "('co, 'f, 'cfg) channelObserverOps \<Rightarrow> int \<Rightarrow> ('f, 'cfg) RemoteBWEParams
    \<Rightarrow> ('co, 'f, 'cfg, 'l) RemoteBWE" where
  "NewRemoteBWE ops now p =
    Reset ops now
      \<lparr>params = p,
       lastReceivedEstimate = 0,
       lastExpectedBandwidthUsage = 0,
       committedChannelCapacity = 0,
       isInProbe = False,
       channelObserver = newObserver ops
         \<lparr>Name = ''non-probe'', ObserverConfig = ChannelObserverNonProbe (Config p)\<rparr>,
       congestionState = CongestionStateNone,
       congestionStateSwitchedAt = 0,
       bweListener = None\<rparr>"

definition SetBWEListener ::
  "'l option \<Rightarrow> ('co, 'f, 'cfg, 'l) RemoteBWE \<Rightarrow> ('co, 'f, 'cfg, 'l) RemoteBWE" where
  "SetBWEListener l r = r\<lparr>bweListener := l\<rparr>"

definition getBWEListener :: "('co, 'f, 'cfg, 'l) RemoteBWE \<Rightarrow> 'l option" where
  "getBWEListener r = bweListener r"

definition updateCongestionState ::
  "int \<Rightarrow> CongestionState \<Rightarrow> channelCongestionReason \<Rightarrow> ('co, 'f, 'cfg, 'l) RemoteBWE
    \<Rightarrow> ('co, 'f, 'cfg, 'l) RemoteBWE" where
  "updateCongestionState now state reason r =
    (let r1 = logw Infow ''remote bwe: congestion state change'' r
     in r1\<lparr>congestionState := state, congestionStateSwitchedAt := now\<rparr>)"

text \<open>
  The capacity commit. \<open>estimateToCommit\<close> and \<open>commitThreshold\<close> are the values of
  the local variables of these names when the method compares them: the candidate after
  the clamp to \<open>lastReceivedEstimate\<close>, and the product of the threshold and the expected
  usage converted to int64. The comparisons are those of int64, that is signed.
\<close>

definition estimateToCommit ::
  "('co, 'f, 'cfg) channelObserverOps \<Rightarrow> 'f float64Ops \<Rightarrow> channelCongestionReason
    \<Rightarrow> ('co, 'f, 'cfg, 'l) RemoteBWE \<Rightarrow> int64" where
  "estimateToCommit ops F reason r =
    (let e = (case reason of
                channelCongestionReasonLoss \<Rightarrow>
                  int64_of_f64 F
                    (f64_mul F (f64_of_int64 F (lastExpectedBandwidthUsage r))
                       (f64_sub F (f64_one F)
                          (f64_mul F (NackRatioAttenuator (Config (params r)))
                             (GetNackRatio ops (channelObserver r)))))
              | _ \<Rightarrow> lastReceivedEstimate r)
     in if lastReceivedEstimate r <s e then lastReceivedEstimate r else e)"

definition commitThreshold :: "'f float64Ops \<Rightarrow> ('co, 'f, 'cfg, 'l) RemoteBWE \<Rightarrow> int64" where
  "commitThreshold F r =
    int64_of_f64 F
      (f64_mul F (ExpectedUsageThreshold (Config (params r)))
         (f64_of_int64 F (lastExpectedBandwidthUsage r)))"

definition skippingMsg :: logEntry where
  "skippingMsg =
    (Debugw,
     ''remote bwe: channel congestion detected, skipping above commit threshold channel capacity update'')"

definition applyingMsg :: logEntry where
  "applyingMsg =
    (Infow, ''remote bwe: channel congestion detected, applying channel capacity update'')"

text \<open>
  The result of the method is the boolean it returns and the controller after the call.
\<close>

definition estimateAvailableChannelCapacity ::
  "('co, 'f, 'cfg) channelObserverOps \<Rightarrow> 'f float64Ops \<Rightarrow> channelCongestionReason
    \<Rightarrow> ('co, 'f, 'cfg, 'l) RemoteBWE \<Rightarrow> bool \<times> ('co, 'f, 'cfg, 'l) RemoteBWE" where
  "estimateAvailableChannelCapacity ops F reason r =
    (if commitThreshold F r <s estimateToCommit ops F reason r then
       (False, logw (fst skippingMsg) (snd skippingMsg) r)
     else
       (let r1 = logw (fst applyingMsg) (snd applyingMsg) r;
            r2 = r1\<lparr>committedChannelCapacity := estimateToCommit ops F reason r\<rparr>
        in (True, newChannelObserver ops r2)))"

text \<open>
  The state machine. \<open>tsince\<close> is the clock as \<open>time.Since\<close> reads it, \<open>tnow\<close> as
  \<open>mono.Now\<close> reads it in \<open>updateCongestionState\<close>. The result is the triple the
  method returns and the controller after the call. In state None the disjunction
  \<open>r.isInProbe || r.estimateAvailableChannelCapacity(reason)\<close> evaluates its right
  operand only when the left one is false.
\<close>

definition congestionDetectionStateMachine ::
  "('co, 'f, 'cfg) channelObserverOps \<Rightarrow> 'f float64Ops \<Rightarrow> int \<Rightarrow> int
    \<Rightarrow> ('co, 'f, 'cfg, 'l) RemoteBWE
    \<Rightarrow> (bool \<times> CongestionState \<times> int64) \<times> ('co, 'f, 'cfg, 'l) RemoteBWE" where
  "congestionDetectionStateMachine ops F tsince tnow r =
    (let newState = congestionState r;
         update = False;
         (trend, reason) = GetTrend ops (channelObserver r);
         r1 = (if trend = channelTrendCongesting
               then logw Debugw ''remote bwe, channel congesting'' r else r);
         (newState1, update1, r2) =
           (case congestionState r1 of
              CongestionStateNone \<Rightarrow>
                if trend = channelTrendCongesting then
                  if isInProbe r1 then (CongestionStateCongested, update, r1)
                  else
                    (let (ok, r') = estimateAvailableChannelCapacity ops F reason r1
                     in if ok then (CongestionStateCongested, update, r')
                        else (newState, update, r'))
                else (newState, update, r1)
            | CongestionStateCongested \<Rightarrow>
                if trend = channelTrendCongesting then
                  (let (ok, r') = estimateAvailableChannelCapacity ops F reason r1
                   in if ok then (newState, True, r') else (newState, update, r'))
                else (CongestionStateCongestedHangover, update, r1)
            | CongestionStateCongestedHangover \<Rightarrow>
                if trend = channelTrendCongesting then
                  (let (ok, r') = estimateAvailableChannelCapacity ops F reason r1
                   in if ok then (CongestionStateCongested, update, r')
                      else (newState, update, r'))
                else if CongestedMinDuration (Config (params r1))
                          \<le> time_Since tsince (congestionStateSwitchedAt r1)
                then (CongestionStateNone, update, r1)
                else (newState, update, r1))
     in if newState1 \<noteq> congestionState r2 \<or> update1 then
          (let r3 = updateCongestionState tnow newState1 reason r2
           in ((True, congestionState r3, committedChannelCapacity r3), r3))
        else ((False, congestionState r2, committedChannelCapacity r2), r2))"

text \<open>
  The feedback handler. The second component of the result is the call made on the
  listener, if any: the listener, the state and the committed capacity passed to
  \<open>OnCongestionStateChange\<close>.
\<close>

definition HandleREMB ::
  "('co, 'f, 'cfg) channelObserverOps \<Rightarrow> 'f float64Ops \<Rightarrow> int \<Rightarrow> int
    \<Rightarrow> int64 \<Rightarrow> int64 \<Rightarrow> uint32 \<Rightarrow> uint32
    \<Rightarrow> ('co, 'f, 'cfg, 'l) RemoteBWE
    \<Rightarrow> ('co, 'f, 'cfg, 'l) RemoteBWE \<times> ('l \<times> CongestionState \<times> int64) option" where
  "HandleREMB ops F tsince tnow receivedEstimate expectedBandwidthUsage sentPackets repeatedNacks r =
    (let r1 = r\<lparr>lastReceivedEstimate := receivedEstimate\<rparr>;
         r2 = r1\<lparr>lastExpectedBandwidthUsage := expectedBandwidthUsage\<rparr>
     in if isInProbe r2 \<and> congestionState r2 \<noteq> CongestionStateNone then (r2, None)
        else
          (let r3 = r2\<lparr>channelObserver :=
                        AddEstimate ops (channelObserver r2) (lastReceivedEstimate r2)\<rparr>;
               r4 = r3\<lparr>channelObserver :=
                        AddNack ops (channelObserver r3) sentPackets repeatedNacks\<rparr>;
               ((shouldNotify, state, committed), r5) =
                 congestionDetectionStateMachine ops F tsince tnow r4
           in if shouldNotify then
                (case getBWEListener r5 of
                   Some l \<Rightarrow> (r5, Some (l, state, committed))
                 | None \<Rightarrow> (r5, None))
              else (r5, None)))"

definition ProbeClusterStarting ::
  "('co, 'f, 'cfg) channelObserverOps \<Rightarrow> ProbeClusterInfo \<Rightarrow> ('co, 'f, 'cfg, 'l) RemoteBWE
    \<Rightarrow> ('co, 'f, 'cfg, 'l) RemoteBWE" where
  "ProbeClusterStarting ops pci r =
    (let r1 = r\<lparr>lastExpectedBandwidthUsage := ExpectedUsageBps (Goal pci)\<rparr>;
         r2 = logw Debugw ''remote bwe: starting probe'' r1;
         r3 = r2\<lparr>isInProbe := True\<rparr>
     in newChannelObserver ops r3)"

definition ProbeClusterDone ::
  "('co, 'f, 'cfg) channelObserverOps \<Rightarrow> ProbeClusterInfo \<Rightarrow> ('co, 'f, 'cfg, 'l) RemoteBWE
    \<Rightarrow> (ProbeSignal \<times> int64) \<times> ('co, 'f, 'cfg, 'l) RemoteBWE" where
  "ProbeClusterDone ops pci r =
    (let pco = channelObserver r;
         probeCongestionState = congestionState r;
         r1 = r\<lparr>isInProbe := False\<rparr>;
         r2 = r1\<lparr>congestionState := CongestionStateNone\<rparr>;
         r3 = newChannelObserver ops r2;
         r4 = logw Debugw ''remote bwe: probe done'' r3
     in if probeCongestionState \<noteq> CongestionStateNone then
          ((ProbeSignalCongesting, committedChannelCapacity r4), r4)
        else
          (let (trend, _) = GetTrend ops pco
           in if \<not> HasEnoughEstimateSamples ops pco \<or> trend = channelTrendNeutral then
                ((ProbeSignalInconclusive, committedChannelCapacity r4), r4)
              else
                (let highestEstimate = GetHighestEstimate ops pco;
                     r5 = (if committedChannelCapacity r4 <s highestEstimate
                           then r4\<lparr>committedChannelCapacity := highestEstimate\<rparr> else r4)
                 in ((ProbeSignalClearing, committedChannelCapacity r5), r5))))"

subsection \<open>Sequences of calls\<close>

text \<open>
  The calls that can reach the controller before \<open>ProbeClusterDone\<close> ends a probe,
  \<open>Reset\<close> among them, and the controller after a sequence of them. \<open>CallReset\<close>
  carries the time that \<open>Reset\<close> reads, \<open>CallHandleREMB\<close> the two readings of the
  clock and the four arguments of the handler.
\<close>

datatype 'l call =
  CallHandleREMB int int int64 int64 uint32 uint32
| CallProbeClusterStarting ProbeClusterInfo
| CallSetBWEListener "'l option"
| CallReset int

fun isReset :: "'l call \<Rightarrow> bool" where
  "isReset (CallReset now) = True"
| "isReset _ = False"

fun runCall ::
  "('co, 'f, 'cfg) channelObserverOps \<Rightarrow> 'f float64Ops \<Rightarrow> 'l call
    \<Rightarrow> ('co, 'f, 'cfg, 'l) RemoteBWE \<Rightarrow> ('co, 'f, 'cfg, 'l) RemoteBWE" where
  "runCall ops F (CallHandleREMB tsince tnow e u sent nacks) r =
     fst (HandleREMB ops F tsince tnow e u sent nacks r)"
| "runCall ops F (CallProbeClusterStarting pci) r = ProbeClusterStarting ops pci r"
| "runCall ops F (CallSetBWEListener l) r = SetBWEListener l r"
| "runCall ops F (CallReset now) r = Reset ops now r"

fun runCalls ::
  "('co, 'f, 'cfg) channelObserverOps \<Rightarrow> 'f float64Ops \<Rightarrow> 'l call list
    \<Rightarrow> ('co, 'f, 'cfg, 'l) RemoteBWE \<Rightarrow> ('co, 'f, 'cfg, 'l) RemoteBWE" where
  "runCalls ops F [] r = r"
| "runCalls ops F (c # cs) r = runCalls ops F cs (runCall ops F c r)"

text \<open>The log entries written between two states of the controller.\<close>

definition newLog ::
  "('co, 'f, 'cfg, 'l) RemoteBWE \<Rightarrow> ('co, 'f, 'cfg, 'l) RemoteBWE \<Rightarrow> logEntry list" where
  "newLog r r' = drop (length (Logger (params r))) (Logger (params r'))"

subsection \<open>A channel observer and a float64 arithmetic to run the controller on\<close>

text \<open>
  Modelled from the spec: a channel observer after section 4.2 of the specification,
  for running the controller on concrete feedback (channel_observer.go is not part of
  remote_bwe.go). It keeps the estimate samples and the packet counts. The nack ratio
  is repeated over sent, 0 without packets and at most 1; there are enough samples from
  the configured minimum on; the highest estimate is the signed maximum of the samples.
  The trend prefers Loss when the nack ratio is above its threshold; otherwise, with
  enough samples, a last estimate below the first one is Congesting for the reason
  BandwidthEstimate and one above it is the improving trend; anything else is Neutral.
  The specification leaves the estimator open; this one is the simplest that meets it.
\<close>

record specObserverConfig =
  minEstimateSamples :: nat
  nackRatioThreshold :: real

record specObserver =
  so_params :: "specObserverConfig channelObserverParams"
  so_estimates :: "int64 list"
  so_sentPackets :: nat
  so_repeatedNacks :: nat

definition so_GetNackRatio :: "specObserver \<Rightarrow> real" where
  "so_GetNackRatio co =
    (if so_sentPackets co = 0 then 0
     else min 1 (real (so_repeatedNacks co) / real (so_sentPackets co)))"

definition so_HasEnoughEstimateSamples :: "specObserver \<Rightarrow> bool" where
  "so_HasEnoughEstimateSamples co =
    (minEstimateSamples (ObserverConfig (so_params co)) \<le> length (so_estimates co))"

definition so_GetHighestEstimate :: "specObserver \<Rightarrow> int64" where
  "so_GetHighestEstimate co =
    (case so_estimates co of
       [] \<Rightarrow> 0
     | e # es \<Rightarrow> foldl (\<lambda>m v. if m <s v then v else m) e es)"

definition so_GetTrend :: "specObserver \<Rightarrow> channelTrend \<times> channelCongestionReason" where
  "so_GetTrend co =
    (if nackRatioThreshold (ObserverConfig (so_params co)) < so_GetNackRatio co then
       (channelTrendCongesting, channelCongestionReasonLoss)
     else
       (case so_estimates co of
          [] \<Rightarrow> (channelTrendNeutral, channelCongestionReasonBandwidthEstimate)
        | e # es \<Rightarrow>
            if so_HasEnoughEstimateSamples co \<and> last (e # es) <s e then
              (channelTrendCongesting, channelCongestionReasonBandwidthEstimate)
            else if so_HasEnoughEstimateSamples co \<and> e <s last (e # es) then
              (channelTrendClearing, channelCongestionReasonBandwidthEstimate)
            else (channelTrendNeutral, channelCongestionReasonBandwidthEstimate)))"

definition specObserverOps :: "(specObserver, real, specObserverConfig) channelObserverOps" where
  "specObserverOps =
    \<lparr>newObserver = (\<lambda>p. \<lparr>so_params = p, so_estimates = [], so_sentPackets = 0,
                         so_repeatedNacks = 0\<rparr>),
     SeedEstimate = (\<lambda>co v. co\<lparr>so_estimates := so_estimates co @ [v]\<rparr>),
     AddEstimate = (\<lambda>co v. co\<lparr>so_estimates := so_estimates co @ [v]\<rparr>),
     AddNack = (\<lambda>co sent nacks.
        co\<lparr>so_sentPackets := so_sentPackets co + unat sent,
           so_repeatedNacks := so_repeatedNacks co + unat nacks\<rparr>),
     GetTrend = so_GetTrend,
     GetNackRatio = so_GetNackRatio,
     HasEnoughEstimateSamples = so_HasEnoughEstimateSamples,
     GetHighestEstimate = so_GetHighestEstimate\<rparr>"

text \<open>
  The float64 operations carried out exactly, over the reals: \<open>float64(x)\<close> is the
  signed value of \<open>x\<close>, \<open>int64(x)\<close> drops the fraction of \<open>x\<close> (it truncates towards
  zero) and keeps the low 64 bits. binary64 computes the same wherever the operands and
  the results are binary fractions of at most 53 bits, as they are in the examples below.
\<close>

definition exactFloat64 :: "real float64Ops" where
  "exactFloat64 =
    \<lparr>f64_of_int64 = (\<lambda>x. real_of_int (sint x)),
     int64_of_f64 = (\<lambda>x. word_of_int (if x < 0 then - \<lfloor>- x\<rfloor> else \<lfloor>x\<rfloor>)),
     f64_one = 1,
     f64_mul = (\<lambda>x y. x * y),
     f64_sub = (\<lambda>x y. x - y)\<rparr>"

subsection \<open>Example controllers\<close>

definition exampleConfig :: "(real, specObserverConfig) RemoteBWEConfig" where
  "exampleConfig =
    \<lparr>NackRatioAttenuator = 1 / 2,
     ExpectedUsageThreshold = 3 / 4,
     ChannelObserverProbe = \<lparr>minEstimateSamples = 2, nackRatioThreshold = 1 / 8\<rparr>,
     ChannelObserverNonProbe = \<lparr>minEstimateSamples = 3, nackRatioThreshold = 1 / 8\<rparr>,
     CongestedMinDuration = 3000000000,
     PeriodicCheckInterval = 2000000000,
     PeriodicCheckIntervalCongested = 200000000\<rparr>"

text \<open>A controller as \<open>NewRemoteBWE\<close> makes it at time 0, with a listener registered.\<close>

definition exampleBWE :: "(specObserver, real, specObserverConfig, nat) RemoteBWE" where
  "exampleBWE =
    SetBWEListener (Some 7)
      (NewRemoteBWE specObserverOps 0 \<lparr>Config = exampleConfig, Logger = []\<rparr>)"

text \<open>A probe with a goal of 2,000,000 bps, and the same controller after its start.\<close>

definition examplePCI :: ProbeClusterInfo where
  "examplePCI = \<lparr>Goal = \<lparr>ExpectedUsageBps = 2000000\<rparr>\<rparr>"

definition exampleProbing :: "(specObserver, real, specObserverConfig, nat) RemoteBWE" where
  "exampleProbing =
    ProbeClusterStarting specObserverOps examplePCI exampleBWE"

text \<open>
  A controller that has recorded an estimate of 900,000 and an expected usage of
  1,000,000, with half of 100 sent packets nacked repeatedly.
\<close>

definition exampleLossy :: "(specObserver, real, specObserverConfig, nat) RemoteBWE" where
  "exampleLossy =
    exampleBWE\<lparr>lastReceivedEstimate := 900000, lastExpectedBandwidthUsage := 1000000,
      channelObserver := AddNack specObserverOps (channelObserver exampleBWE) 100 50\<rparr>"

text \<open>The same estimate and expected usage without the nacks.\<close>

definition exampleAboveThreshold ::
  "(specObserver, real, specObserverConfig, nat) RemoteBWE" where
  "exampleAboveThreshold =
    exampleBWE\<lparr>lastReceivedEstimate := 900000, lastExpectedBandwidthUsage := 1000000\<rparr>"

text \<open>A controller that has recorded an estimate of -1 and an expected usage of -2.\<close>

definition exampleNegativeUsage ::
  "(specObserver, real, specObserverConfig, nat) RemoteBWE" where
  "exampleNegativeUsage =
    exampleBWE\<lparr>lastReceivedEstimate := - 1, lastExpectedBandwidthUsage := - 2\<rparr>"

text \<open>
  The probing controller after a first feedback with an estimate of 1,000,000, far below
  the seed of its observer: the probe has caused congestion.
\<close>

definition exampleProbeCongested ::
  "(specObserver, real, specObserverConfig, nat) RemoteBWE" where
  "exampleProbeCongested =
    fst (HandleREMB specObserverOps exactFloat64 10 11 1000000 2000000 100 0 exampleProbing)"

text \<open>
  The controller on which \<open>HandleREMB\<close> runs the state machine when it does not return
  early: the estimate and the expected usage recorded, the estimate and the packet
  counts added to the observer.
\<close>

definition withSamples ::
  "('co, 'f, 'cfg) channelObserverOps \<Rightarrow> int64 \<Rightarrow> int64 \<Rightarrow> uint32 \<Rightarrow> uint32
    \<Rightarrow> ('co, 'f, 'cfg, 'l) RemoteBWE \<Rightarrow> ('co, 'f, 'cfg, 'l) RemoteBWE" where
  "withSamples ops e u sent nacks r =
    r\<lparr>lastReceivedEstimate := e, lastExpectedBandwidthUsage := u,
      channelObserver := AddNack ops (AddEstimate ops (channelObserver r) e) sent nacks\<rparr>"

text \<open>
  The probing controller when its first feedback, with an estimate of 1,000,000, reaches
  the state machine.
\<close>

definition exampleProbeSample ::
  "(specObserver, real, specObserverConfig, nat) RemoteBWE" where
  "exampleProbeSample = withSamples specObserverOps 1000000 2000000 100 0 exampleProbing"

text \<open>
  A controller outside a probe after two feedbacks with a falling estimate, and the same
  when a third one reaches the state machine with an estimate of 1,000,000 (below the
  commit threshold of 1,500,000) or of 1,800,000 (above it).
\<close>

definition exampleFalling :: "(specObserver, real, specObserverConfig, nat) RemoteBWE" where
  "exampleFalling =
    runCalls specObserverOps exactFloat64
      [CallHandleREMB 10 11 3000000 2000000 100 0,
       CallHandleREMB 20 21 2500000 2000000 100 0] exampleBWE"

definition exampleFallingLow :: "(specObserver, real, specObserverConfig, nat) RemoteBWE" where
  "exampleFallingLow = withSamples specObserverOps 1000000 2000000 100 0 exampleFalling"

definition exampleFallingHigh :: "(specObserver, real, specObserverConfig, nat) RemoteBWE" where
  "exampleFallingHigh = withSamples specObserverOps 1800000 2000000 100 0 exampleFalling"

text \<open>
  The controller after a third feedback has committed 500,000 and made it Congested at
  time 31, and a fourth has moved it to CongestedHangover at time 41.
\<close>

definition exampleHangover :: "(specObserver, real, specObserverConfig, nat) RemoteBWE" where
  "exampleHangover =
    runCalls specObserverOps exactFloat64
      [CallHandleREMB 30 31 500000 2000000 100 0,
       CallHandleREMB 40 41 500000 2000000 100 0] exampleFalling"

text \<open>
  The controller after the hangover has ended, a probe with a goal of 2,000,000 has
  started and two feedbacks have reported rising estimates up to 1,800,000.
\<close>

definition exampleProbeClearing ::
  "(specObserver, real, specObserverConfig, nat) RemoteBWE" where
  "exampleProbeClearing =
    runCalls specObserverOps exactFloat64
      [CallHandleREMB 4000000000 4000000001 500000 2000000 100 0,
       CallProbeClusterStarting examplePCI,
       CallHandleREMB 4100000000 4100000001 1200000 2000000 100 0,
       CallHandleREMB 4200000000 4200000001 1800000 2000000 100 0] exampleHangover"

text \<open>
  A controller in a probe with a committed capacity above the sentinel: a first probe
  has seen an estimate of 200,000,000 and ended Clearing, and a second probe has
  started.
\<close>

definition exampleProbeHigh :: "(specObserver, real, specObserverConfig, nat) RemoteBWE" where
  "exampleProbeHigh =
    ProbeClusterStarting specObserverOps examplePCI
      (snd (ProbeClusterDone specObserverOps examplePCI
         (runCalls specObserverOps exactFloat64
            [CallHandleREMB 10 11 200000000 2000000 100 0] exampleProbing)))"

section \<open>Properties\<close>

subsection \<open>Unfolding\<close>

lemmas example_defs =
  exampleLossy_def exampleAboveThreshold_def exampleNegativeUsage_def exampleProbeCongested_def
  exampleProbeSample_def exampleFalling_def exampleFallingLow_def exampleFallingHigh_def
  exampleHangover_def exampleProbeClearing_def exampleProbeHigh_def withSamples_def
  exampleProbing_def examplePCI_def exampleBWE_def exampleConfig_def
  specObserverOps_def exactFloat64_def so_GetNackRatio_def so_GetTrend_def
  so_HasEnoughEstimateSamples_def so_GetHighestEstimate_def

lemmas method_defs =
  NewRemoteBWE_def Reset_def SetBWEListener_def getBWEListener_def ProbeClusterStarting_def
  ProbeClusterDone_def HandleREMB_def congestionDetectionStateMachine_def
  estimateAvailableChannelCapacity_def estimateToCommit_def commitThreshold_def
  updateCongestionState_def newChannelObserver_def logw_def applyingMsg_def skippingMsg_def
  time_Since_def newLog_def Let_def word_sless_alt word_sle_eq

subsection \<open>What logging and a fresh observer leave alone\<close>

lemma logw_simps:
  "lastReceivedEstimate (logw l m r) = lastReceivedEstimate r"
  "lastExpectedBandwidthUsage (logw l m r) = lastExpectedBandwidthUsage r"
  "committedChannelCapacity (logw l m r) = committedChannelCapacity r"
  "isInProbe (logw l m r) = isInProbe r"
  "channelObserver (logw l m r) = channelObserver r"
  "congestionState (logw l m r) = congestionState r"
  "congestionStateSwitchedAt (logw l m r) = congestionStateSwitchedAt r"
  "bweListener (logw l m r) = bweListener r"
  "Config (params (logw l m r)) = Config (params r)"
  "Logger (params (logw l m r)) = Logger (params r) @ [(l, m)]"
  by (simp_all add: logw_def)

lemma newChannelObserver_simps:
  "lastReceivedEstimate (newChannelObserver ops r) = lastReceivedEstimate r"
  "lastExpectedBandwidthUsage (newChannelObserver ops r) = lastExpectedBandwidthUsage r"
  "committedChannelCapacity (newChannelObserver ops r) = committedChannelCapacity r"
  "isInProbe (newChannelObserver ops r) = isInProbe r"
  "congestionState (newChannelObserver ops r) = congestionState r"
  "congestionStateSwitchedAt (newChannelObserver ops r) = congestionStateSwitchedAt r"
  "bweListener (newChannelObserver ops r) = bweListener r"
  "params (newChannelObserver ops r) = params r"
  by (simp_all add: newChannelObserver_def Let_def)

lemma newChannelObserver_observer:
  "channelObserver (newChannelObserver ops r) =
    (if isInProbe r then
       SeedEstimate ops
         (newObserver ops \<lparr>Name = ''probe'',
            ObserverConfig = ChannelObserverProbe (Config (params r))\<rparr>)
         (committedChannelCapacity r)
     else newObserver ops \<lparr>Name = ''non-probe'',
            ObserverConfig = ChannelObserverNonProbe (Config (params r))\<rparr>)"
  by (simp add: newChannelObserver_def Let_def)

subsection \<open>Reset\<close>

text \<open>
  Claim C9. After \<open>Reset\<close>, and so after \<open>NewRemoteBWE\<close>, which ends with it, the last
  received estimate and the last expected usage are 0, the committed capacity is the
  sentinel 100,000,000, no probe is in flight, the state is None, the observer is a
  fresh non-probe one (made from the non-probe configuration, not seeded), and
  \<open>congestionStateSwitchedAt\<close> is the time of the call.
\<close>

theorem Reset_defaults:
  "lastReceivedEstimate (Reset ops now r) = 0 \<and>
   lastExpectedBandwidthUsage (Reset ops now r) = 0 \<and>
   committedChannelCapacity (Reset ops now r) = 100000000 \<and>
   isInProbe (Reset ops now r) = False \<and>
   congestionState (Reset ops now r) = CongestionStateNone \<and>
   channelObserver (Reset ops now r) =
     newObserver ops \<lparr>Name = ''non-probe'',
       ObserverConfig = ChannelObserverNonProbe (Config (params r))\<rparr> \<and>
   congestionStateSwitchedAt (Reset ops now r) = now \<and>
   lastReceivedEstimate (NewRemoteBWE ops now p :: ('co, 'f, 'cfg, 'l) RemoteBWE) = 0 \<and>
   lastExpectedBandwidthUsage (NewRemoteBWE ops now p :: ('co, 'f, 'cfg, 'l) RemoteBWE) = 0 \<and>
   committedChannelCapacity (NewRemoteBWE ops now p :: ('co, 'f, 'cfg, 'l) RemoteBWE)
     = 100000000 \<and>
   isInProbe (NewRemoteBWE ops now p :: ('co, 'f, 'cfg, 'l) RemoteBWE) = False \<and>
   congestionState (NewRemoteBWE ops now p :: ('co, 'f, 'cfg, 'l) RemoteBWE)
     = CongestionStateNone \<and>
   channelObserver (NewRemoteBWE ops now p :: ('co, 'f, 'cfg, 'l) RemoteBWE) =
     newObserver ops \<lparr>Name = ''non-probe'',
       ObserverConfig = ChannelObserverNonProbe (Config p)\<rparr> \<and>
   congestionStateSwitchedAt (NewRemoteBWE ops now p :: ('co, 'f, 'cfg, 'l) RemoteBWE) = now"
  by (simp add: NewRemoteBWE_def Reset_def Let_def newChannelObserver_simps
        newChannelObserver_observer)

subsection \<open>The capacity commit\<close>

lemma estimateToCommit_le: "estimateToCommit ops F reason r \<le>s lastReceivedEstimate r"
  by (simp add: estimateToCommit_def Let_def word_sle_eq word_sless_alt)

lemma estimate_accept_iff:
  "fst (estimateAvailableChannelCapacity ops F reason r)
     = (\<not> commitThreshold F r <s estimateToCommit ops F reason r)"
  by (simp add: estimateAvailableChannelCapacity_def Let_def)

text \<open>
  Claim C3. Whenever the commit is accepted, the committed capacity it sets is at most
  the last received estimate (as signed 64-bit values), which the commit does not
  change; this holds for every reason, every observer and every float64 arithmetic.
\<close>

theorem commit_clamp:
  assumes "estimateAvailableChannelCapacity ops F reason r = (True, r')"
  shows "committedChannelCapacity r' \<le>s lastReceivedEstimate r
       \<and> lastReceivedEstimate r' = lastReceivedEstimate r"
  using assms estimateToCommit_le [of ops F reason r]
  by (auto simp add: estimateAvailableChannelCapacity_def Let_def newChannelObserver_simps
        logw_simps split: if_splits)

theorem commit_clamp_witness:
  "estimateAvailableChannelCapacity specObserverOps exactFloat64 channelCongestionReasonLoss
     exampleLossy
    = (True, snd (estimateAvailableChannelCapacity specObserverOps exactFloat64
         channelCongestionReasonLoss exampleLossy))
   \<and> committedChannelCapacity (snd (estimateAvailableChannelCapacity specObserverOps
         exactFloat64 channelCongestionReasonLoss exampleLossy)) = 750000
   \<and> committedChannelCapacity (snd (estimateAvailableChannelCapacity specObserverOps
         exactFloat64 channelCongestionReasonLoss exampleLossy))
       \<le>s lastReceivedEstimate exampleLossy"
proof -
  have accepted:
    "estimateAvailableChannelCapacity specObserverOps exactFloat64 channelCongestionReasonLoss
       exampleLossy
      = (True, snd (estimateAvailableChannelCapacity specObserverOps exactFloat64
           channelCongestionReasonLoss exampleLossy))"
    by (simp add: example_defs method_defs)
  have committed:
    "committedChannelCapacity (snd (estimateAvailableChannelCapacity specObserverOps
         exactFloat64 channelCongestionReasonLoss exampleLossy)) = 750000"
    by (simp add: example_defs method_defs)
  from commit_clamp [OF accepted] accepted committed show ?thesis by simp
qed

text \<open>
  Claim C4, as amended. The commit is rejected exactly when the candidate exceeds
  \<open>commitThreshold\<close>, the int64 that the conversion makes of the product of
  \<open>ExpectedUsageThreshold\<close> and the last expected usage. A rejected commit returns false
  and leaves the committed capacity and the observer as they are (it only logs); an
  accepted one returns true, sets the committed capacity to the candidate and installs
  a fresh observer, seeded with the new capacity when a probe is in flight.
\<close>

theorem commit_threshold:
  "(commitThreshold F r <s estimateToCommit ops F reason r \<longrightarrow>
      estimateAvailableChannelCapacity ops F reason r
        = (False, logw (fst skippingMsg) (snd skippingMsg) r)
      \<and> committedChannelCapacity (snd (estimateAvailableChannelCapacity ops F reason r))
          = committedChannelCapacity r
      \<and> channelObserver (snd (estimateAvailableChannelCapacity ops F reason r))
          = channelObserver r)
   \<and> (\<not> commitThreshold F r <s estimateToCommit ops F reason r \<longrightarrow>
      fst (estimateAvailableChannelCapacity ops F reason r) = True
      \<and> committedChannelCapacity (snd (estimateAvailableChannelCapacity ops F reason r))
          = estimateToCommit ops F reason r
      \<and> channelObserver (snd (estimateAvailableChannelCapacity ops F reason r))
          = (if isInProbe r then
               SeedEstimate ops
                 (newObserver ops \<lparr>Name = ''probe'',
                    ObserverConfig = ChannelObserverProbe (Config (params r))\<rparr>)
                 (estimateToCommit ops F reason r)
             else newObserver ops \<lparr>Name = ''non-probe'',
                    ObserverConfig = ChannelObserverNonProbe (Config (params r))\<rparr>))"
  by (simp add: estimateAvailableChannelCapacity_def Let_def newChannelObserver_simps
        newChannelObserver_observer logw_simps)

theorem commit_threshold_witness:
  "(commitThreshold exactFloat64 exampleAboveThreshold
      <s estimateToCommit specObserverOps exactFloat64
           channelCongestionReasonBandwidthEstimate exampleAboveThreshold
    \<and> fst (estimateAvailableChannelCapacity specObserverOps exactFloat64
         channelCongestionReasonBandwidthEstimate exampleAboveThreshold) = False
    \<and> committedChannelCapacity (snd (estimateAvailableChannelCapacity specObserverOps
         exactFloat64 channelCongestionReasonBandwidthEstimate exampleAboveThreshold))
        = 100000000)
   \<and> (\<not> commitThreshold exactFloat64 exampleLossy
          <s estimateToCommit specObserverOps exactFloat64 channelCongestionReasonLoss
               exampleLossy
    \<and> fst (estimateAvailableChannelCapacity specObserverOps exactFloat64
         channelCongestionReasonLoss exampleLossy) = True
    \<and> committedChannelCapacity (snd (estimateAvailableChannelCapacity specObserverOps
         exactFloat64 channelCongestionReasonLoss exampleLossy)) = 750000)"
proof -
  have above:
    "commitThreshold exactFloat64 exampleAboveThreshold
      <s estimateToCommit specObserverOps exactFloat64
           channelCongestionReasonBandwidthEstimate exampleAboveThreshold"
    by (simp add: example_defs method_defs)
  have capacity: "committedChannelCapacity exampleAboveThreshold = 100000000"
    by (simp add: example_defs method_defs)
  have below:
    "\<not> commitThreshold exactFloat64 exampleLossy
        <s estimateToCommit specObserverOps exactFloat64 channelCongestionReasonLoss
             exampleLossy"
    by (simp add: example_defs method_defs)
  have candidate:
    "estimateToCommit specObserverOps exactFloat64 channelCongestionReasonLoss exampleLossy
      = 750000"
    by (simp add: example_defs method_defs)
  from commit_threshold [of exactFloat64 exampleAboveThreshold specObserverOps
      channelCongestionReasonBandwidthEstimate] above capacity
  have rejected:
    "fst (estimateAvailableChannelCapacity specObserverOps exactFloat64
         channelCongestionReasonBandwidthEstimate exampleAboveThreshold) = False
     \<and> committedChannelCapacity (snd (estimateAvailableChannelCapacity specObserverOps
         exactFloat64 channelCongestionReasonBandwidthEstimate exampleAboveThreshold))
        = 100000000"
    by (simp add: logw_simps)
  from commit_threshold [of exactFloat64 exampleLossy specObserverOps
      channelCongestionReasonLoss] below candidate
  have accepted:
    "fst (estimateAvailableChannelCapacity specObserverOps exactFloat64
         channelCongestionReasonLoss exampleLossy) = True
     \<and> committedChannelCapacity (snd (estimateAvailableChannelCapacity specObserverOps
         exactFloat64 channelCongestionReasonLoss exampleLossy)) = 750000"
    by simp
  from above below rejected accepted show ?thesis by simp
qed

text \<open>
  Claim C4 as stated fails: the claim compares the candidate with the product itself,
  the code with the product converted to int64, and the conversion truncates towards
  zero. With a threshold of 3/4, an expected usage of -2 and an estimate of -1 the
  candidate -1 exceeds the product -1.5, yet \<open>commitThreshold\<close> is -1, the commit is
  accepted and the committed capacity changes from 100,000,000 to -1. Three feedback
  calls with a falling estimate bring the controller there.
\<close>

theorem commit_threshold_counterexample:
  "ExpectedUsageThreshold (Config (params exampleNegativeUsage))
      * real_of_int (sint (lastExpectedBandwidthUsage exampleNegativeUsage))
    < real_of_int (sint (estimateToCommit specObserverOps exactFloat64
         channelCongestionReasonBandwidthEstimate exampleNegativeUsage))
   \<and> commitThreshold exactFloat64 exampleNegativeUsage = - 1
   \<and> fst (estimateAvailableChannelCapacity specObserverOps exactFloat64
         channelCongestionReasonBandwidthEstimate exampleNegativeUsage) = True
   \<and> committedChannelCapacity exampleNegativeUsage = 100000000
   \<and> committedChannelCapacity (snd (estimateAvailableChannelCapacity specObserverOps
         exactFloat64 channelCongestionReasonBandwidthEstimate exampleNegativeUsage)) = - 1
   \<and> committedChannelCapacity (runCalls specObserverOps exactFloat64
         [CallHandleREMB 10 11 10 (- 2) 100 0, CallHandleREMB 20 21 5 (- 2) 100 0,
          CallHandleREMB 30 31 (- 1) (- 2) 100 0] exampleBWE) = - 1"
  by (simp add: example_defs method_defs)

subsection \<open>The freeze during a probe\<close>

text \<open>
  Claim C2. A feedback that arrives while a probe is in flight and the state is not
  None records the received estimate and the expected usage and does nothing else: the
  controller is otherwise the one before the call (same observer, congestion state,
  committed capacity, switch time and log), and no call is made on the listener.
\<close>

theorem freeze_in_probe:
  assumes "isInProbe r" and "congestionState r \<noteq> CongestionStateNone"
  shows "HandleREMB ops F tsince tnow e u sent nacks r
           = (r\<lparr>lastReceivedEstimate := e, lastExpectedBandwidthUsage := u\<rparr>, None)
   \<and> lastReceivedEstimate (fst (HandleREMB ops F tsince tnow e u sent nacks r)) = e
   \<and> lastExpectedBandwidthUsage (fst (HandleREMB ops F tsince tnow e u sent nacks r)) = u
   \<and> channelObserver (fst (HandleREMB ops F tsince tnow e u sent nacks r))
       = channelObserver r
   \<and> congestionState (fst (HandleREMB ops F tsince tnow e u sent nacks r))
       = congestionState r
   \<and> committedChannelCapacity (fst (HandleREMB ops F tsince tnow e u sent nacks r))
       = committedChannelCapacity r
   \<and> congestionStateSwitchedAt (fst (HandleREMB ops F tsince tnow e u sent nacks r))
       = congestionStateSwitchedAt r
   \<and> isInProbe (fst (HandleREMB ops F tsince tnow e u sent nacks r))
   \<and> snd (HandleREMB ops F tsince tnow e u sent nacks r) = None"
  using assms by (simp add: HandleREMB_def Let_def)

theorem freeze_in_probe_witness:
  "isInProbe exampleProbeCongested
   \<and> congestionState exampleProbeCongested = CongestionStateCongested
   \<and> HandleREMB specObserverOps exactFloat64 20 21 3000000 2000000 100 0
       exampleProbeCongested
      = (exampleProbeCongested\<lparr>lastReceivedEstimate := 3000000,
           lastExpectedBandwidthUsage := 2000000\<rparr>, None)"
proof -
  have probing: "isInProbe exampleProbeCongested"
    by (simp add: example_defs method_defs)
  have congested: "congestionState exampleProbeCongested = CongestionStateCongested"
    by (simp add: example_defs method_defs)
  then have not_none: "congestionState exampleProbeCongested \<noteq> CongestionStateNone"
    by simp
  from freeze_in_probe [OF probing not_none, of specObserverOps exactFloat64 20 21
      3000000 2000000 100 0] probing congested
  show ?thesis by simp
qed

subsection \<open>The state machine, case by case\<close>

lemma estimate_effect:
  assumes "estimateAvailableChannelCapacity ops F reason r = (ok, r')"
  shows "isInProbe r' = isInProbe r"
    and "congestionState r' = congestionState r"
    and "congestionStateSwitchedAt r' = congestionStateSwitchedAt r"
    and "bweListener r' = bweListener r"
    and "lastReceivedEstimate r' = lastReceivedEstimate r"
    and "lastExpectedBandwidthUsage r' = lastExpectedBandwidthUsage r"
    and "Config (params r') = Config (params r)"
    and "Logger (params r') = Logger (params r) @ [if ok then applyingMsg else skippingMsg]"
    and "\<not> ok \<Longrightarrow> committedChannelCapacity r' = committedChannelCapacity r"
    and "\<not> ok \<Longrightarrow> channelObserver r' = channelObserver r"
  using assms
  by (auto simp add: estimateAvailableChannelCapacity_def Let_def newChannelObserver_simps
        logw_simps split: if_splits)

lemma msgs_distinct:
  "applyingMsg \<noteq> skippingMsg"
  "applyingMsg \<noteq> (Debugw, ''remote bwe, channel congesting'')"
  "applyingMsg \<noteq> (Infow, ''remote bwe: congestion state change'')"
  "applyingMsg \<noteq> (Debugw, ''remote bwe: starting probe'')"
  "skippingMsg \<noteq> (Debugw, ''remote bwe, channel congesting'')"
  "skippingMsg \<noteq> (Infow, ''remote bwe: congestion state change'')"
  "skippingMsg \<noteq> (Debugw, ''remote bwe: starting probe'')"
  by (simp_all add: applyingMsg_def skippingMsg_def)

lemma commit_values_logw:
  "commitThreshold F (logw l m r) = commitThreshold F r"
  "estimateToCommit ops F reason (logw l m r) = estimateToCommit ops F reason r"
  by (simp_all add: commitThreshold_def estimateToCommit_def logw_simps Let_def
        split: channelCongestionReason.splits)

lemma newLog_append:
  "Logger (params r') = Logger (params r) @ xs \<Longrightarrow> newLog r r' = xs"
  by (simp add: newLog_def)

lemma updateCongestionState_simps:
  "lastReceivedEstimate (updateCongestionState now st reason r) = lastReceivedEstimate r"
  "lastExpectedBandwidthUsage (updateCongestionState now st reason r)
     = lastExpectedBandwidthUsage r"
  "committedChannelCapacity (updateCongestionState now st reason r)
     = committedChannelCapacity r"
  "isInProbe (updateCongestionState now st reason r) = isInProbe r"
  "channelObserver (updateCongestionState now st reason r) = channelObserver r"
  "congestionState (updateCongestionState now st reason r) = st"
  "congestionStateSwitchedAt (updateCongestionState now st reason r) = now"
  "bweListener (updateCongestionState now st reason r) = bweListener r"
  "Config (params (updateCongestionState now st reason r)) = Config (params r)"
  "Logger (params (updateCongestionState now st reason r))
     = Logger (params r) @ [(Infow, ''remote bwe: congestion state change'')]"
  by (simp_all add: updateCongestionState_def Let_def logw_def)

lemma SM_not_congesting:
  assumes "GetTrend ops (channelObserver r) = (trend, reason)"
      and "trend \<noteq> channelTrendCongesting"
  shows "congestionDetectionStateMachine ops F tsince tnow r =
    (case congestionState r of
       CongestionStateNone \<Rightarrow> ((False, CongestionStateNone, committedChannelCapacity r), r)
     | CongestionStateCongested \<Rightarrow>
         ((True, CongestionStateCongestedHangover, committedChannelCapacity r),
          updateCongestionState tnow CongestionStateCongestedHangover reason r)
     | CongestionStateCongestedHangover \<Rightarrow>
         if CongestedMinDuration (Config (params r))
              \<le> time_Since tsince (congestionStateSwitchedAt r)
         then ((True, CongestionStateNone, committedChannelCapacity r),
               updateCongestionState tnow CongestionStateNone reason r)
         else ((False, CongestionStateCongestedHangover, committedChannelCapacity r), r))"
  using assms
  by (cases "congestionState r")
     (simp_all add: congestionDetectionStateMachine_def Let_def updateCongestionState_simps)

lemma SM_congesting:
  assumes "GetTrend ops (channelObserver r) = (channelTrendCongesting, reason)"
      and "estimateAvailableChannelCapacity ops F reason
             (logw Debugw ''remote bwe, channel congesting'' r) = (ok, rc)"
  shows "congestionDetectionStateMachine ops F tsince tnow r =
    (if congestionState r = CongestionStateNone \<and> isInProbe r then
       ((True, CongestionStateCongested, committedChannelCapacity r),
        updateCongestionState tnow CongestionStateCongested reason
          (logw Debugw ''remote bwe, channel congesting'' r))
     else if ok then
       ((True, CongestionStateCongested, committedChannelCapacity rc),
        updateCongestionState tnow CongestionStateCongested reason rc)
     else ((False, congestionState r, committedChannelCapacity rc), rc))"
proof -
  note fx = estimate_effect(2) [OF assms(2), unfolded logw_simps]
  show ?thesis
    using assms
    by (cases "congestionState r"; cases "isInProbe r"; cases ok)
       (simp_all add: congestionDetectionStateMachine_def Let_def updateCongestionState_simps
          logw_simps fx)
qed

text \<open>
  Claim C1, as amended. In state None with a Congesting trend: when a probe is in
  flight the state becomes Congested and no commit is attempted (the committed capacity
  and the observer stay as they are, and the log gains the two entries of the state
  machine only); when no probe is in flight the commit is attempted, and the state
  becomes Congested with the candidate committed if it is accepted, and stays None with
  the capacity unchanged if it is rejected.
\<close>

theorem none_congesting:
  assumes "congestionState r = CongestionStateNone"
      and "GetTrend ops (channelObserver r) = (channelTrendCongesting, reason)"
  shows "(isInProbe r \<longrightarrow>
            fst (congestionDetectionStateMachine ops F tsince tnow r)
              = (True, CongestionStateCongested, committedChannelCapacity r)
          \<and> congestionState (snd (congestionDetectionStateMachine ops F tsince tnow r))
              = CongestionStateCongested
          \<and> committedChannelCapacity (snd (congestionDetectionStateMachine ops F tsince tnow r))
              = committedChannelCapacity r
          \<and> channelObserver (snd (congestionDetectionStateMachine ops F tsince tnow r))
              = channelObserver r
          \<and> newLog r (snd (congestionDetectionStateMachine ops F tsince tnow r))
              = [(Debugw, ''remote bwe, channel congesting''),
                 (Infow, ''remote bwe: congestion state change'')])
       \<and> (\<not> isInProbe r \<and> \<not> commitThreshold F r <s estimateToCommit ops F reason r \<longrightarrow>
            fst (congestionDetectionStateMachine ops F tsince tnow r)
              = (True, CongestionStateCongested, estimateToCommit ops F reason r)
          \<and> congestionState (snd (congestionDetectionStateMachine ops F tsince tnow r))
              = CongestionStateCongested
          \<and> committedChannelCapacity (snd (congestionDetectionStateMachine ops F tsince tnow r))
              = estimateToCommit ops F reason r
          \<and> newLog r (snd (congestionDetectionStateMachine ops F tsince tnow r))
              = [(Debugw, ''remote bwe, channel congesting''), applyingMsg,
                 (Infow, ''remote bwe: congestion state change'')])
       \<and> (\<not> isInProbe r \<and> commitThreshold F r <s estimateToCommit ops F reason r \<longrightarrow>
            fst (congestionDetectionStateMachine ops F tsince tnow r)
              = (False, CongestionStateNone, committedChannelCapacity r)
          \<and> congestionState (snd (congestionDetectionStateMachine ops F tsince tnow r))
              = CongestionStateNone
          \<and> committedChannelCapacity (snd (congestionDetectionStateMachine ops F tsince tnow r))
              = committedChannelCapacity r
          \<and> newLog r (snd (congestionDetectionStateMachine ops F tsince tnow r))
              = [(Debugw, ''remote bwe, channel congesting''), skippingMsg])"
  using assms
  by (simp add: congestionDetectionStateMachine_def Let_def updateCongestionState_def
        estimateAvailableChannelCapacity_def commit_values_logw newChannelObserver_simps
        logw_simps newLog_def applyingMsg_def skippingMsg_def)

theorem none_congesting_witness:
  "(isInProbe exampleProbeSample
     \<and> congestionState (snd (congestionDetectionStateMachine specObserverOps exactFloat64
           10 11 exampleProbeSample)) = CongestionStateCongested
     \<and> committedChannelCapacity (snd (congestionDetectionStateMachine specObserverOps
           exactFloat64 10 11 exampleProbeSample)) = 100000000)
   \<and> (\<not> isInProbe exampleFallingLow
     \<and> congestionState (snd (congestionDetectionStateMachine specObserverOps exactFloat64
           30 31 exampleFallingLow)) = CongestionStateCongested
     \<and> committedChannelCapacity (snd (congestionDetectionStateMachine specObserverOps
           exactFloat64 30 31 exampleFallingLow)) = 1000000)
   \<and> (\<not> isInProbe exampleFallingHigh
     \<and> congestionState (snd (congestionDetectionStateMachine specObserverOps exactFloat64
           30 31 exampleFallingHigh)) = CongestionStateNone
     \<and> committedChannelCapacity (snd (congestionDetectionStateMachine specObserverOps
           exactFloat64 30 31 exampleFallingHigh)) = 100000000)"
proof -
  have s1: "congestionState exampleProbeSample = CongestionStateNone"
    and t1: "GetTrend specObserverOps (channelObserver exampleProbeSample)
              = (channelTrendCongesting, channelCongestionReasonBandwidthEstimate)"
    and p1: "isInProbe exampleProbeSample"
    and c1: "committedChannelCapacity exampleProbeSample = 100000000"
    by (simp_all add: example_defs method_defs)
  have s2: "congestionState exampleFallingLow = CongestionStateNone"
    and t2: "GetTrend specObserverOps (channelObserver exampleFallingLow)
              = (channelTrendCongesting, channelCongestionReasonBandwidthEstimate)"
    and p2: "\<not> isInProbe exampleFallingLow"
    and a2: "\<not> commitThreshold exactFloat64 exampleFallingLow
               <s estimateToCommit specObserverOps exactFloat64
                    channelCongestionReasonBandwidthEstimate exampleFallingLow"
    and c2: "estimateToCommit specObserverOps exactFloat64
               channelCongestionReasonBandwidthEstimate exampleFallingLow = 1000000"
    by (simp_all add: example_defs method_defs)
  have s3: "congestionState exampleFallingHigh = CongestionStateNone"
    and t3: "GetTrend specObserverOps (channelObserver exampleFallingHigh)
              = (channelTrendCongesting, channelCongestionReasonBandwidthEstimate)"
    and p3: "\<not> isInProbe exampleFallingHigh"
    and a3: "commitThreshold exactFloat64 exampleFallingHigh
               <s estimateToCommit specObserverOps exactFloat64
                    channelCongestionReasonBandwidthEstimate exampleFallingHigh"
    and c3: "committedChannelCapacity exampleFallingHigh = 100000000"
    by (simp_all add: example_defs method_defs)
  from none_congesting [OF s1 t1, where F = exactFloat64 and tsince = 10 and tnow = 11] p1 c1
  have r1: "congestionState (snd (congestionDetectionStateMachine specObserverOps exactFloat64
           10 11 exampleProbeSample)) = CongestionStateCongested
     \<and> committedChannelCapacity (snd (congestionDetectionStateMachine specObserverOps
           exactFloat64 10 11 exampleProbeSample)) = 100000000"
    by simp
  from none_congesting [OF s2 t2, where F = exactFloat64 and tsince = 30 and tnow = 31]
    p2 a2 c2
  have r2: "congestionState (snd (congestionDetectionStateMachine specObserverOps exactFloat64
           30 31 exampleFallingLow)) = CongestionStateCongested
     \<and> committedChannelCapacity (snd (congestionDetectionStateMachine specObserverOps
           exactFloat64 30 31 exampleFallingLow)) = 1000000"
    by simp
  from none_congesting [OF s3 t3, where F = exactFloat64 and tsince = 30 and tnow = 31]
    p3 a3 c3
  have r3: "congestionState (snd (congestionDetectionStateMachine specObserverOps exactFloat64
           30 31 exampleFallingHigh)) = CongestionStateNone
     \<and> committedChannelCapacity (snd (congestionDetectionStateMachine specObserverOps
           exactFloat64 30 31 exampleFallingHigh)) = 100000000"
    by simp
  from p1 p2 p3 r1 r2 r3 show ?thesis by simp
qed

text \<open>
  Claim C1 as stated fails: the commit attempt does not run when a probe is in flight.
  The probing controller receives an estimate of 1,000,000, far below the 100,000,000
  its observer was seeded with. The state is None, the trend is Congesting and the
  commit, had it run, would have been accepted and would have set the committed
  capacity to 1,000,000. The state machine makes the state Congested, leaves the
  capacity at 100,000,000 and the observer in place, and the log holds neither entry of
  the commit.
\<close>

theorem none_congesting_counterexample:
  "congestionState exampleProbeSample = CongestionStateNone
   \<and> isInProbe exampleProbeSample
   \<and> GetTrend specObserverOps (channelObserver exampleProbeSample)
       = (channelTrendCongesting, channelCongestionReasonBandwidthEstimate)
   \<and> fst (estimateAvailableChannelCapacity specObserverOps exactFloat64
         channelCongestionReasonBandwidthEstimate exampleProbeSample) = True
   \<and> committedChannelCapacity (snd (estimateAvailableChannelCapacity specObserverOps
         exactFloat64 channelCongestionReasonBandwidthEstimate exampleProbeSample)) = 1000000
   \<and> congestionState (snd (congestionDetectionStateMachine specObserverOps exactFloat64 10 11
         exampleProbeSample)) = CongestionStateCongested
   \<and> committedChannelCapacity (snd (congestionDetectionStateMachine specObserverOps
         exactFloat64 10 11 exampleProbeSample)) = 100000000
   \<and> channelObserver (snd (congestionDetectionStateMachine specObserverOps exactFloat64 10 11
         exampleProbeSample)) = channelObserver exampleProbeSample
   \<and> applyingMsg \<notin> set (Logger (params (snd (congestionDetectionStateMachine specObserverOps
         exactFloat64 10 11 exampleProbeSample))))
   \<and> skippingMsg \<notin> set (Logger (params (snd (congestionDetectionStateMachine specObserverOps
         exactFloat64 10 11 exampleProbeSample))))
   \<and> HandleREMB specObserverOps exactFloat64 10 11 1000000 2000000 100 0 exampleProbing
       = (snd (congestionDetectionStateMachine specObserverOps exactFloat64 10 11
            exampleProbeSample), Some (7, CongestionStateCongested, 100000000))"
  by (simp add: example_defs method_defs)

text \<open>
  Claim C5. In state CongestedHangover with a trend that is not Congesting, an
  evaluation made while the time since \<open>congestionStateSwitchedAt\<close> is below
  \<open>CongestedMinDuration\<close> changes nothing: the state stays CongestedHangover and the
  switch time stays. An evaluation made once that time has reached
  \<open>CongestedMinDuration\<close> moves the state to None, with the switch time set to the
  time of the call.
\<close>

theorem hangover_exit:
  assumes "congestionState r = CongestionStateCongestedHangover"
      and "fst (GetTrend ops (channelObserver r)) \<noteq> channelTrendCongesting"
  shows "(time_Since tsince (congestionStateSwitchedAt r)
            < CongestedMinDuration (Config (params r)) \<longrightarrow>
          congestionDetectionStateMachine ops F tsince tnow r
            = ((False, CongestionStateCongestedHangover, committedChannelCapacity r), r))
       \<and> (CongestedMinDuration (Config (params r))
            \<le> time_Since tsince (congestionStateSwitchedAt r) \<longrightarrow>
          fst (congestionDetectionStateMachine ops F tsince tnow r)
            = (True, CongestionStateNone, committedChannelCapacity r)
          \<and> congestionState (snd (congestionDetectionStateMachine ops F tsince tnow r))
              = CongestionStateNone
          \<and> congestionStateSwitchedAt (snd (congestionDetectionStateMachine ops F tsince tnow r))
              = tnow)"
proof -
  obtain trend reason where trend: "GetTrend ops (channelObserver r) = (trend, reason)"
    by (cases "GetTrend ops (channelObserver r)")
  with assms(2) have "trend \<noteq> channelTrendCongesting" by simp
  then show ?thesis
    by (simp add: congestionDetectionStateMachine_def Let_def updateCongestionState_def
          logw_simps trend assms(1))
qed

theorem hangover_exit_witness:
  "congestionState exampleHangover = CongestionStateCongestedHangover
   \<and> congestionDetectionStateMachine specObserverOps exactFloat64 1000000041 1000000042
        exampleHangover
       = ((False, CongestionStateCongestedHangover, 500000), exampleHangover)
   \<and> congestionState (snd (congestionDetectionStateMachine specObserverOps exactFloat64
        3000000041 3000000042 exampleHangover)) = CongestionStateNone
   \<and> congestionStateSwitchedAt (snd (congestionDetectionStateMachine specObserverOps
        exactFloat64 3000000041 3000000042 exampleHangover)) = 3000000042"
proof -
  have hangover: "congestionState exampleHangover = CongestionStateCongestedHangover"
    and capacity: "committedChannelCapacity exampleHangover = 500000"
    and early: "time_Since 1000000041 (congestionStateSwitchedAt exampleHangover)
                  < CongestedMinDuration (Config (params exampleHangover))"
    and late: "CongestedMinDuration (Config (params exampleHangover))
                  \<le> time_Since 3000000041 (congestionStateSwitchedAt exampleHangover)"
    by (simp_all add: example_defs method_defs)
  have trend: "fst (GetTrend specObserverOps (channelObserver exampleHangover))
                 \<noteq> channelTrendCongesting"
    by (simp add: example_defs method_defs)
  from hangover_exit [OF hangover trend, where F = exactFloat64 and tsince = 1000000041
      and tnow = 1000000042] early capacity
  have stays: "congestionDetectionStateMachine specObserverOps exactFloat64 1000000041
        1000000042 exampleHangover
       = ((False, CongestionStateCongestedHangover, 500000), exampleHangover)"
    by simp
  from hangover_exit [OF hangover trend, where F = exactFloat64 and tsince = 3000000041
      and tnow = 3000000042] late
  have leaves: "congestionState (snd (congestionDetectionStateMachine specObserverOps
        exactFloat64 3000000041 3000000042 exampleHangover)) = CongestionStateNone
     \<and> congestionStateSwitchedAt (snd (congestionDetectionStateMachine specObserverOps
        exactFloat64 3000000041 3000000042 exampleHangover)) = 3000000042"
    by simp
  from hangover stays leaves show ?thesis by simp
qed

subsection \<open>Notification of the listener\<close>

lemma SM_notify:
  assumes "congestionDetectionStateMachine ops F tsince tnow r = ((n, st, c), r')"
  shows "st = congestionState r' \<and> c = committedChannelCapacity r'
       \<and> bweListener r' = bweListener r
       \<and> (n \<longleftrightarrow> (congestionState r' \<noteq> congestionState r
            \<or> (congestionState r = CongestionStateCongested \<and> applyingMsg \<in> set (newLog r r'))))"
proof -
  obtain trend reason where trend: "GetTrend ops (channelObserver r) = (trend, reason)"
    by (cases "GetTrend ops (channelObserver r)")
  show ?thesis
  proof (cases "trend = channelTrendCongesting")
    case False
    from assms [unfolded SM_not_congesting [OF trend False]] show ?thesis
      by (cases "congestionState r")
         (auto simp add: updateCongestionState_simps newLog_def msgs_distinct
            split: if_splits)
  next
    case True
    obtain ok rc where e:
      "estimateAvailableChannelCapacity ops F reason
         (logw Debugw ''remote bwe, channel congesting'' r) = (ok, rc)"
      by (cases "estimateAvailableChannelCapacity ops F reason
         (logw Debugw ''remote bwe, channel congesting'' r)")
    note fx = estimate_effect(2,4,8) [OF e, unfolded logw_simps]
    from trend True have t: "GetTrend ops (channelObserver r) = (channelTrendCongesting, reason)"
      by simp
    from assms [unfolded SM_congesting [OF t e]] fx show ?thesis
      by (cases "congestionState r"; cases ok)
         (auto simp add: updateCongestionState_simps logw_simps newLog_def msgs_distinct
            split: if_splits)
  qed
qed

lemma withSamples_simps:
  "lastReceivedEstimate (withSamples ops e u sent nacks r) = e"
  "lastExpectedBandwidthUsage (withSamples ops e u sent nacks r) = u"
  "committedChannelCapacity (withSamples ops e u sent nacks r) = committedChannelCapacity r"
  "isInProbe (withSamples ops e u sent nacks r) = isInProbe r"
  "channelObserver (withSamples ops e u sent nacks r)
     = AddNack ops (AddEstimate ops (channelObserver r) e) sent nacks"
  "congestionState (withSamples ops e u sent nacks r) = congestionState r"
  "congestionStateSwitchedAt (withSamples ops e u sent nacks r) = congestionStateSwitchedAt r"
  "bweListener (withSamples ops e u sent nacks r) = bweListener r"
  "params (withSamples ops e u sent nacks r) = params r"
  by (simp_all add: withSamples_def)

lemma HandleREMB_unfrozen:
  assumes "\<not> (isInProbe r \<and> congestionState r \<noteq> CongestionStateNone)"
  shows "HandleREMB ops F tsince tnow e u sent nacks r =
    (snd (congestionDetectionStateMachine ops F tsince tnow (withSamples ops e u sent nacks r)),
     if fst (fst (congestionDetectionStateMachine ops F tsince tnow
                    (withSamples ops e u sent nacks r)))
     then (case bweListener (snd (congestionDetectionStateMachine ops F tsince tnow
                    (withSamples ops e u sent nacks r))) of
             Some l \<Rightarrow>
               Some (l, fst (snd (fst (congestionDetectionStateMachine ops F tsince tnow
                          (withSamples ops e u sent nacks r)))),
                     snd (snd (fst (congestionDetectionStateMachine ops F tsince tnow
                          (withSamples ops e u sent nacks r)))))
           | None \<Rightarrow> None)
     else None)"
  using assms
  by (auto simp add: HandleREMB_def Let_def getBWEListener_def withSamples_def
        split: prod.splits option.splits)

lemma listener_commutes:
  "logw lv m (r\<lparr>bweListener := x\<rparr>) = (logw lv m r)\<lparr>bweListener := x\<rparr>"
  "newChannelObserver ops (r\<lparr>bweListener := x\<rparr>) = (newChannelObserver ops r)\<lparr>bweListener := x\<rparr>"
  "updateCongestionState now st reason (r\<lparr>bweListener := x\<rparr>)
     = (updateCongestionState now st reason r)\<lparr>bweListener := x\<rparr>"
  "commitThreshold F (r\<lparr>bweListener := x\<rparr>) = commitThreshold F r"
  "estimateToCommit ops F reason (r\<lparr>bweListener := x\<rparr>) = estimateToCommit ops F reason r"
  by (simp_all add: logw_def newChannelObserver_def updateCongestionState_def Let_def
        commitThreshold_def estimateToCommit_def split: channelCongestionReason.splits)

lemma estimate_listener:
  "estimateAvailableChannelCapacity ops F reason (r\<lparr>bweListener := x\<rparr>)
    = (fst (estimateAvailableChannelCapacity ops F reason r),
       (snd (estimateAvailableChannelCapacity ops F reason r))\<lparr>bweListener := x\<rparr>)"
  by (simp add: estimateAvailableChannelCapacity_def Let_def listener_commutes(4,5)
        newChannelObserver_def logw_def)

lemma SM_listener:
  "congestionDetectionStateMachine ops F tsince tnow (r\<lparr>bweListener := x\<rparr>)
    = (fst (congestionDetectionStateMachine ops F tsince tnow r),
       (snd (congestionDetectionStateMachine ops F tsince tnow r))\<lparr>bweListener := x\<rparr>)"
proof -
  obtain trend reason where trend: "GetTrend ops (channelObserver r) = (trend, reason)"
    by (cases "GetTrend ops (channelObserver r)")
  then have trend': "GetTrend ops (channelObserver (r\<lparr>bweListener := x\<rparr>)) = (trend, reason)"
    by simp
  show ?thesis
  proof (cases "trend = channelTrendCongesting")
    case False
    show ?thesis
      unfolding SM_not_congesting [OF trend False] SM_not_congesting [OF trend' False]
      by (cases "congestionState r") (simp_all add: listener_commutes)
  next
    case True
    obtain ok rc where e:
      "estimateAvailableChannelCapacity ops F reason
         (logw Debugw ''remote bwe, channel congesting'' r) = (ok, rc)"
      by (cases "estimateAvailableChannelCapacity ops F reason
         (logw Debugw ''remote bwe, channel congesting'' r)")
    then have e':
      "estimateAvailableChannelCapacity ops F reason
         (logw Debugw ''remote bwe, channel congesting'' (r\<lparr>bweListener := x\<rparr>))
        = (ok, rc\<lparr>bweListener := x\<rparr>)"
      by (simp add: listener_commutes estimate_listener)
    from trend True have t: "GetTrend ops (channelObserver r) = (channelTrendCongesting, reason)"
      by simp
    from trend' True
    have t': "GetTrend ops (channelObserver (r\<lparr>bweListener := x\<rparr>))
                = (channelTrendCongesting, reason)"
      by simp
    show ?thesis
      unfolding SM_congesting [OF t e] SM_congesting [OF t' e']
      by (simp add: listener_commutes)
  qed
qed

lemma withSamples_listener:
  "withSamples ops e u sent nacks (r\<lparr>bweListener := x\<rparr>)
    = (withSamples ops e u sent nacks r)\<lparr>bweListener := x\<rparr>"
  by (simp add: withSamples_def)

lemma HandleREMB_listener:
  "fst (HandleREMB ops F tsince tnow e u sent nacks (r\<lparr>bweListener := x\<rparr>))
    = (fst (HandleREMB ops F tsince tnow e u sent nacks r))\<lparr>bweListener := x\<rparr>"
proof (cases "isInProbe r \<and> congestionState r \<noteq> CongestionStateNone")
  case True
  then show ?thesis by (simp add: HandleREMB_def Let_def)
next
  case False
  then have False': "\<not> (isInProbe (r\<lparr>bweListener := x\<rparr>)
               \<and> congestionState (r\<lparr>bweListener := x\<rparr>) \<noteq> CongestionStateNone)"
    by simp
  show ?thesis
    unfolding HandleREMB_unfrozen [OF False'] HandleREMB_unfrozen [OF False]
      withSamples_listener SM_listener
    by simp
qed

lemma HandleREMB_no_listener:
  assumes "bweListener r = None"
  shows "snd (HandleREMB ops F tsince tnow e u sent nacks r) = None"
proof (cases "isInProbe r \<and> congestionState r \<noteq> CongestionStateNone")
  case True
  then show ?thesis by (simp add: HandleREMB_def Let_def)
next
  case False
  obtain n st c r' where sm:
    "congestionDetectionStateMachine ops F tsince tnow (withSamples ops e u sent nacks r)
      = ((n, st, c), r')"
    by (metis prod.exhaust)
  from SM_notify [OF sm] assms have "bweListener r' = None"
    by (simp add: withSamples_simps)
  then show ?thesis
    unfolding HandleREMB_unfrozen [OF False] sm by simp
qed

text \<open>
  Claim C8. When the feedback handler evaluates the state machine (it is not frozen by
  a probe), a registered listener is called exactly when the state after the call
  differs from the state before it, or the state is Congested before and after and the
  call has committed a capacity (the log gained the entry of an applied commit); the
  call passes the new state and the committed capacity. With a nil listener no call is
  made, and the controller after the handler is the one a registered listener would
  have left, the listener apart.
\<close>

theorem notify_iff:
  assumes "\<not> (isInProbe r \<and> congestionState r \<noteq> CongestionStateNone)"
  shows "(bweListener r = Some l \<longrightarrow>
            (snd (HandleREMB ops F tsince tnow e u sent nacks r) \<noteq> None \<longleftrightarrow>
               congestionState (fst (HandleREMB ops F tsince tnow e u sent nacks r))
                 \<noteq> congestionState r
               \<or> (congestionState (fst (HandleREMB ops F tsince tnow e u sent nacks r))
                     = congestionState r
                  \<and> congestionState r = CongestionStateCongested
                  \<and> applyingMsg
                       \<in> set (newLog r (fst (HandleREMB ops F tsince tnow e u sent nacks r)))))
          \<and> (snd (HandleREMB ops F tsince tnow e u sent nacks r) \<noteq> None \<longrightarrow>
               snd (HandleREMB ops F tsince tnow e u sent nacks r)
                 = Some (l, congestionState (fst (HandleREMB ops F tsince tnow e u sent nacks r)),
                         committedChannelCapacity
                           (fst (HandleREMB ops F tsince tnow e u sent nacks r)))))
       \<and> snd (HandleREMB ops F tsince tnow e u sent nacks (r\<lparr>bweListener := None\<rparr>)) = None
       \<and> fst (HandleREMB ops F tsince tnow e u sent nacks (r\<lparr>bweListener := None\<rparr>))
           = (fst (HandleREMB ops F tsince tnow e u sent nacks r))\<lparr>bweListener := None\<rparr>"
proof -
  obtain n st c r' where sm:
    "congestionDetectionStateMachine ops F tsince tnow (withSamples ops e u sent nacks r)
      = ((n, st, c), r')"
    by (metis prod.exhaust)
  note facts = SM_notify [OF sm, unfolded withSamples_simps]
  have log: "newLog (withSamples ops e u sent nacks r) r' = newLog r r'"
    by (simp add: newLog_def withSamples_simps)
  have with_listener: "bweListener r = Some l \<longrightarrow>
            (snd (HandleREMB ops F tsince tnow e u sent nacks r) \<noteq> None \<longleftrightarrow>
               congestionState (fst (HandleREMB ops F tsince tnow e u sent nacks r))
                 \<noteq> congestionState r
               \<or> (congestionState (fst (HandleREMB ops F tsince tnow e u sent nacks r))
                     = congestionState r
                  \<and> congestionState r = CongestionStateCongested
                  \<and> applyingMsg
                       \<in> set (newLog r (fst (HandleREMB ops F tsince tnow e u sent nacks r)))))
          \<and> (snd (HandleREMB ops F tsince tnow e u sent nacks r) \<noteq> None \<longrightarrow>
               snd (HandleREMB ops F tsince tnow e u sent nacks r)
                 = Some (l, congestionState (fst (HandleREMB ops F tsince tnow e u sent nacks r)),
                         committedChannelCapacity
                           (fst (HandleREMB ops F tsince tnow e u sent nacks r))))"
    using facts
    unfolding HandleREMB_unfrozen [OF assms] sm log
    by auto
  have frozen_none:
    "snd (HandleREMB ops F tsince tnow e u sent nacks (r\<lparr>bweListener := None\<rparr>)) = None"
    by (rule HandleREMB_no_listener) simp
  show ?thesis
    using with_listener frozen_none HandleREMB_listener [where r = r and x = None and ops = ops and F = F
        and tsince = tsince and tnow = tnow and e = e and u = u and sent = sent and nacks = nacks]
    by simp
qed

theorem notify_iff_witness:
  "\<not> (isInProbe exampleFalling \<and> congestionState exampleFalling \<noteq> CongestionStateNone)
   \<and> bweListener exampleFalling = Some 7
   \<and> congestionState (fst (HandleREMB specObserverOps exactFloat64 30 31 500000 2000000
        100 0 exampleFalling)) = CongestionStateCongested
   \<and> snd (HandleREMB specObserverOps exactFloat64 30 31 500000 2000000 100 0 exampleFalling)
       = Some (7, CongestionStateCongested, 500000)
   \<and> snd (HandleREMB specObserverOps exactFloat64 30 31 500000 2000000 100 0
        (exampleFalling\<lparr>bweListener := None\<rparr>)) = None"
proof -
  have unfrozen:
    "\<not> (isInProbe exampleFalling \<and> congestionState exampleFalling \<noteq> CongestionStateNone)"
    and listener: "bweListener exampleFalling = Some 7"
    and before: "congestionState exampleFalling = CongestionStateNone"
    by (simp_all add: example_defs method_defs)
  have after: "congestionState (fst (HandleREMB specObserverOps exactFloat64 30 31 500000
        2000000 100 0 exampleFalling)) = CongestionStateCongested"
    and capacity: "committedChannelCapacity (fst (HandleREMB specObserverOps exactFloat64
        30 31 500000 2000000 100 0 exampleFalling)) = 500000"
    by (simp_all add: example_defs method_defs)
  from notify_iff [OF unfrozen, where l = 7 and ops = specObserverOps and F = exactFloat64
      and tsince = 30 and tnow = 31 and e = 500000 and u = 2000000 and sent = 100
      and nacks = 0] listener before after capacity
  have "snd (HandleREMB specObserverOps exactFloat64 30 31 500000 2000000 100 0
          exampleFalling) = Some (7, CongestionStateCongested, 500000)
     \<and> snd (HandleREMB specObserverOps exactFloat64 30 31 500000 2000000 100 0
        (exampleFalling\<lparr>bweListener := None\<rparr>)) = None"
    by simp
  with unfrozen listener after show ?thesis by simp
qed

subsection \<open>The end of a probe\<close>

text \<open>
  Claim C6. \<open>ProbeClusterDone\<close> decides from the congestion state and the observer it
  finds: with a state other than None it returns Congesting and the committed capacity
  stays; otherwise, when the observer has too few estimate samples or a Neutral trend,
  it returns Inconclusive and the capacity stays; otherwise it returns Clearing, and
  the committed capacity becomes the observer's highest estimate exactly when that
  exceeds it. The capacity returned is the committed one.
\<close>

theorem ProbeClusterDone_signal:
  "(congestionState r \<noteq> CongestionStateNone \<longrightarrow>
      fst (ProbeClusterDone ops pci r) = (ProbeSignalCongesting, committedChannelCapacity r)
      \<and> committedChannelCapacity (snd (ProbeClusterDone ops pci r))
          = committedChannelCapacity r)
   \<and> (congestionState r = CongestionStateNone
       \<and> (\<not> HasEnoughEstimateSamples ops (channelObserver r)
          \<or> fst (GetTrend ops (channelObserver r)) = channelTrendNeutral) \<longrightarrow>
      fst (ProbeClusterDone ops pci r) = (ProbeSignalInconclusive, committedChannelCapacity r)
      \<and> committedChannelCapacity (snd (ProbeClusterDone ops pci r))
          = committedChannelCapacity r)
   \<and> (congestionState r = CongestionStateNone
       \<and> HasEnoughEstimateSamples ops (channelObserver r)
       \<and> fst (GetTrend ops (channelObserver r)) \<noteq> channelTrendNeutral \<longrightarrow>
      fst (fst (ProbeClusterDone ops pci r)) = ProbeSignalClearing
      \<and> committedChannelCapacity (snd (ProbeClusterDone ops pci r))
          = (if committedChannelCapacity r <s GetHighestEstimate ops (channelObserver r)
             then GetHighestEstimate ops (channelObserver r)
             else committedChannelCapacity r)
      \<and> snd (fst (ProbeClusterDone ops pci r))
          = committedChannelCapacity (snd (ProbeClusterDone ops pci r)))"
  by (simp add: ProbeClusterDone_def Let_def newChannelObserver_simps
        newChannelObserver_observer logw_simps split: prod.splits)

theorem ProbeClusterDone_signal_witness:
  "(congestionState exampleProbeCongested \<noteq> CongestionStateNone
     \<and> fst (ProbeClusterDone specObserverOps examplePCI exampleProbeCongested)
         = (ProbeSignalCongesting, 100000000))
   \<and> (congestionState exampleProbing = CongestionStateNone
     \<and> \<not> HasEnoughEstimateSamples specObserverOps (channelObserver exampleProbing)
     \<and> fst (ProbeClusterDone specObserverOps examplePCI exampleProbing)
         = (ProbeSignalInconclusive, 100000000))
   \<and> (congestionState exampleProbeClearing = CongestionStateNone
     \<and> HasEnoughEstimateSamples specObserverOps (channelObserver exampleProbeClearing)
     \<and> committedChannelCapacity exampleProbeClearing = 500000
     \<and> fst (fst (ProbeClusterDone specObserverOps examplePCI exampleProbeClearing))
         = ProbeSignalClearing
     \<and> committedChannelCapacity (snd (ProbeClusterDone specObserverOps examplePCI
          exampleProbeClearing)) = 1800000)"
proof -
  have s1: "congestionState exampleProbeCongested \<noteq> CongestionStateNone"
    and c1: "committedChannelCapacity exampleProbeCongested = 100000000"
    by (simp_all add: example_defs method_defs)
  have s2: "congestionState exampleProbing = CongestionStateNone"
    and h2: "\<not> HasEnoughEstimateSamples specObserverOps (channelObserver exampleProbing)"
    and c2: "committedChannelCapacity exampleProbing = 100000000"
    by (simp_all add: example_defs method_defs)
  have s3: "congestionState exampleProbeClearing = CongestionStateNone"
    and h3: "HasEnoughEstimateSamples specObserverOps (channelObserver exampleProbeClearing)"
    and t3: "fst (GetTrend specObserverOps (channelObserver exampleProbeClearing))
               \<noteq> channelTrendNeutral"
    and c3: "committedChannelCapacity exampleProbeClearing = 500000"
    and m3: "GetHighestEstimate specObserverOps (channelObserver exampleProbeClearing)
               = 1800000"
    by (simp_all add: example_defs method_defs)
  from ProbeClusterDone_signal [of exampleProbeCongested specObserverOps examplePCI] s1 c1
  have r1: "fst (ProbeClusterDone specObserverOps examplePCI exampleProbeCongested)
         = (ProbeSignalCongesting, 100000000)"
    by simp
  from ProbeClusterDone_signal [of exampleProbing specObserverOps examplePCI] s2 h2 c2
  have r2: "fst (ProbeClusterDone specObserverOps examplePCI exampleProbing)
         = (ProbeSignalInconclusive, 100000000)"
    by simp
  from ProbeClusterDone_signal [of exampleProbeClearing specObserverOps examplePCI] s3 h3 t3 c3 m3
  have r3: "fst (fst (ProbeClusterDone specObserverOps examplePCI exampleProbeClearing))
         = ProbeSignalClearing
     \<and> committedChannelCapacity (snd (ProbeClusterDone specObserverOps examplePCI
          exampleProbeClearing)) = 1800000"
    by simp
  from s1 s2 h2 s3 h3 c3 r1 r2 r3 show ?thesis by simp
qed

text \<open>
  Claim C7. Every call of \<open>ProbeClusterDone\<close> returns one of the three signals
  Inconclusive, Congesting and Clearing, and whatever it returns, the controller after
  the call is not in a probe, its state is None and its observer is a fresh non-probe
  one (made from the non-probe configuration, not seeded).
\<close>

theorem ProbeClusterDone_resets:
  "fst (fst (ProbeClusterDone ops pci r))
      \<in> {ProbeSignalInconclusive, ProbeSignalCongesting, ProbeSignalClearing}
   \<and> isInProbe (snd (ProbeClusterDone ops pci r)) = False
   \<and> congestionState (snd (ProbeClusterDone ops pci r)) = CongestionStateNone
   \<and> channelObserver (snd (ProbeClusterDone ops pci r))
       = newObserver ops \<lparr>Name = ''non-probe'',
           ObserverConfig = ChannelObserverNonProbe (Config (params r))\<rparr>"
  by (simp add: ProbeClusterDone_def Let_def newChannelObserver_simps
        newChannelObserver_observer logw_simps split: prod.splits)

theorem ProbeClusterDone_resets_witness:
  "fst (fst (ProbeClusterDone specObserverOps examplePCI exampleProbeCongested))
      = ProbeSignalCongesting
   \<and> isInProbe exampleProbeCongested
   \<and> isInProbe (snd (ProbeClusterDone specObserverOps examplePCI exampleProbeCongested)) = False
   \<and> congestionState (snd (ProbeClusterDone specObserverOps examplePCI exampleProbeCongested))
       = CongestionStateNone
   \<and> channelObserver (snd (ProbeClusterDone specObserverOps examplePCI exampleProbeCongested))
       = newObserver specObserverOps \<lparr>Name = ''non-probe'',
           ObserverConfig = ChannelObserverNonProbe (Config (params exampleProbeCongested))\<rparr>"
proof -
  have signal: "fst (fst (ProbeClusterDone specObserverOps examplePCI exampleProbeCongested))
      = ProbeSignalCongesting"
    and probing: "isInProbe exampleProbeCongested"
    by (simp_all add: example_defs method_defs)
  from ProbeClusterDone_resets [of specObserverOps examplePCI exampleProbeCongested] signal probing
  show ?thesis by simp
qed

subsection \<open>No commit while a probe is in flight\<close>

lemma SM_in_probe:
  assumes "isInProbe r" and "congestionState r = CongestionStateNone"
  shows "isInProbe (snd (congestionDetectionStateMachine ops F tsince tnow r))
       \<and> committedChannelCapacity (snd (congestionDetectionStateMachine ops F tsince tnow r))
           = committedChannelCapacity r
       \<and> (\<exists>xs. Logger (params (snd (congestionDetectionStateMachine ops F tsince tnow r)))
                  = Logger (params r) @ xs
               \<and> applyingMsg \<notin> set xs \<and> skippingMsg \<notin> set xs)"
proof -
  obtain trend reason where trend: "GetTrend ops (channelObserver r) = (trend, reason)"
    by (cases "GetTrend ops (channelObserver r)")
  show ?thesis
  proof (cases "trend = channelTrendCongesting")
    case False
    show ?thesis
      unfolding SM_not_congesting [OF trend False]
      using assms by simp
  next
    case True
    obtain ok rc where e:
      "estimateAvailableChannelCapacity ops F reason
         (logw Debugw ''remote bwe, channel congesting'' r) = (ok, rc)"
      by (cases "estimateAvailableChannelCapacity ops F reason
         (logw Debugw ''remote bwe, channel congesting'' r)")
    from trend True have t: "GetTrend ops (channelObserver r) = (channelTrendCongesting, reason)"
      by simp
    show ?thesis
      unfolding SM_congesting [OF t e]
      using assms by (simp add: updateCongestionState_simps logw_simps msgs_distinct)
  qed
qed

lemma HandleREMB_in_probe:
  assumes "isInProbe r"
  shows "isInProbe (fst (HandleREMB ops F tsince tnow e u sent nacks r))
       \<and> committedChannelCapacity (fst (HandleREMB ops F tsince tnow e u sent nacks r))
           = committedChannelCapacity r
       \<and> (\<exists>xs. Logger (params (fst (HandleREMB ops F tsince tnow e u sent nacks r)))
                  = Logger (params r) @ xs
               \<and> applyingMsg \<notin> set xs \<and> skippingMsg \<notin> set xs)"
proof (cases "congestionState r = CongestionStateNone")
  case False
  with assms show ?thesis by (simp add: HandleREMB_def Let_def)
next
  case True
  then have unfrozen: "\<not> (isInProbe r \<and> congestionState r \<noteq> CongestionStateNone)"
    by simp
  have "isInProbe (withSamples ops e u sent nacks r)"
    and "congestionState (withSamples ops e u sent nacks r) = CongestionStateNone"
    using assms True by (simp_all add: withSamples_simps)
  from SM_in_probe [OF this, of ops F tsince tnow]
  show ?thesis
    unfolding HandleREMB_unfrozen [OF unfrozen]
    by (simp add: withSamples_simps)
qed

lemma runCall_in_probe:
  assumes "isInProbe r" and "\<not> isReset c"
  shows "isInProbe (runCall ops F c r)
       \<and> committedChannelCapacity (runCall ops F c r) = committedChannelCapacity r
       \<and> (\<exists>xs. Logger (params (runCall ops F c r)) = Logger (params r) @ xs
               \<and> applyingMsg \<notin> set xs \<and> skippingMsg \<notin> set xs)"
proof (cases c)
  case (CallHandleREMB tsince tnow e u sent nacks)
  with HandleREMB_in_probe [OF assms(1)] show ?thesis by simp
next
  case (CallProbeClusterStarting pci)
  then show ?thesis
    by (simp add: ProbeClusterStarting_def Let_def newChannelObserver_simps logw_def
          msgs_distinct)
next
  case (CallSetBWEListener l)
  with assms(1) show ?thesis by (simp add: SetBWEListener_def)
next
  case (CallReset now)
  with assms(2) show ?thesis by simp
qed

lemma runCalls_in_probe:
  assumes "isInProbe r" and "\<forall>c \<in> set cs. \<not> isReset c"
  shows "isInProbe (runCalls ops F cs r)
       \<and> committedChannelCapacity (runCalls ops F cs r) = committedChannelCapacity r
       \<and> (\<exists>xs. Logger (params (runCalls ops F cs r)) = Logger (params r) @ xs
               \<and> applyingMsg \<notin> set xs \<and> skippingMsg \<notin> set xs)"
  using assms
proof (induction cs arbitrary: r)
  case Nil
  then show ?case by simp
next
  case (Cons c cs)
  from Cons.prems(2) have first: "\<not> isReset c" and others: "\<forall>c \<in> set cs. \<not> isReset c"
    by simp_all
  from runCall_in_probe [OF Cons.prems(1) first, of ops F]
  obtain xs where step: "isInProbe (runCall ops F c r)"
      "committedChannelCapacity (runCall ops F c r) = committedChannelCapacity r"
      "Logger (params (runCall ops F c r)) = Logger (params r) @ xs"
      "applyingMsg \<notin> set xs" "skippingMsg \<notin> set xs"
    by blast
  from Cons.IH [OF step(1) others]
  obtain ys where rest: "isInProbe (runCalls ops F cs (runCall ops F c r))"
      "committedChannelCapacity (runCalls ops F cs (runCall ops F c r))
         = committedChannelCapacity (runCall ops F c r)"
      "Logger (params (runCalls ops F cs (runCall ops F c r)))
         = Logger (params (runCall ops F c r)) @ ys"
      "applyingMsg \<notin> set ys" "skippingMsg \<notin> set ys"
    by blast
  have "Logger (params (runCalls ops F (c # cs) r)) = Logger (params r) @ (xs @ ys)"
    using step(3) rest(3) by simp
  moreover have "applyingMsg \<notin> set (xs @ ys)" "skippingMsg \<notin> set (xs @ ys)"
    using step(4,5) rest(4,5) by simp_all
  ultimately show ?case
    using step(2) rest(1,2) by (simp del: append_assoc)
qed

lemma ProbeClusterDone_ratchet:
  "committedChannelCapacity r \<le>s committedChannelCapacity (snd (ProbeClusterDone ops pci r))
   \<and> (committedChannelCapacity (snd (ProbeClusterDone ops pci r)) \<noteq> committedChannelCapacity r
        \<longrightarrow> fst (fst (ProbeClusterDone ops pci r)) = ProbeSignalClearing)"
  by (simp add: ProbeClusterDone_def Let_def newChannelObserver_simps logw_simps
        word_sle_eq word_sless_alt split: prod.splits)

lemma Reset_effect:
  "committedChannelCapacity (Reset ops now r) = 100000000"
  "isInProbe (Reset ops now r) = False"
  "Logger (params (Reset ops now r)) = Logger (params r)"
  by (simp_all add: Reset_def Let_def newChannelObserver_simps)

text \<open>
  Claim C10, as amended. While a probe is in flight the commit algorithm does not run.
  Whatever feedbacks, probe starts and listener registrations reach a controller that
  is in a probe, it stays in the probe, its committed capacity stays what it was, and
  the log gains no entry of a commit, accepted or rejected. Two calls end the probe and
  can change the capacity. \<open>ProbeClusterDone\<close> leaves it at least as high as it was,
  and changes it only when it returns Clearing. \<open>Reset\<close> sets it to the sentinel
  100,000,000, whatever it was, and runs no commit either.
\<close>

theorem no_commit_in_probe:
  assumes "isInProbe r" and "\<forall>c \<in> set cs. \<not> isReset c"
  shows "isInProbe (runCalls ops F cs r)
       \<and> committedChannelCapacity (runCalls ops F cs r) = committedChannelCapacity r
       \<and> applyingMsg \<notin> set (newLog r (runCalls ops F cs r))
       \<and> skippingMsg \<notin> set (newLog r (runCalls ops F cs r))
       \<and> committedChannelCapacity r
            \<le>s committedChannelCapacity (snd (ProbeClusterDone ops pci (runCalls ops F cs r)))
       \<and> (committedChannelCapacity (snd (ProbeClusterDone ops pci (runCalls ops F cs r)))
              \<noteq> committedChannelCapacity r
            \<longrightarrow> fst (fst (ProbeClusterDone ops pci (runCalls ops F cs r))) = ProbeSignalClearing)
       \<and> committedChannelCapacity (runCalls ops F (cs @ [CallReset now]) r) = 100000000
       \<and> isInProbe (runCalls ops F (cs @ [CallReset now]) r) = False
       \<and> applyingMsg \<notin> set (newLog r (runCalls ops F (cs @ [CallReset now]) r))
       \<and> skippingMsg \<notin> set (newLog r (runCalls ops F (cs @ [CallReset now]) r))"
proof -
  from runCalls_in_probe [OF assms, of ops F]
  obtain xs where run: "isInProbe (runCalls ops F cs r)"
      "committedChannelCapacity (runCalls ops F cs r) = committedChannelCapacity r"
      "Logger (params (runCalls ops F cs r)) = Logger (params r) @ xs"
      "applyingMsg \<notin> set xs" "skippingMsg \<notin> set xs"
    by blast
  from run(3) have log: "newLog r (runCalls ops F cs r) = xs"
    by (rule newLog_append)
  have reset: "runCalls ops F (cs @ [CallReset now]) r = Reset ops now (runCalls ops F cs r)"
    by (induction cs arbitrary: r) simp_all
  have "Logger (params (Reset ops now (runCalls ops F cs r))) = Logger (params r) @ xs"
    using run(3) by (simp add: Reset_effect)
  then have reset_log: "newLog r (Reset ops now (runCalls ops F cs r)) = xs"
    by (rule newLog_append)
  from run log reset_log ProbeClusterDone_ratchet [of "runCalls ops F cs r" ops pci]
  show ?thesis by (simp add: reset Reset_effect)
qed

theorem no_commit_in_probe_witness:
  "isInProbe exampleProbing
   \<and> \<not> isReset (CallHandleREMB 10 11 1000000 2000000 100 0)
   \<and> \<not> isReset (CallHandleREMB 20 21 3000000 2000000 100 0)
   \<and> \<not> isReset (CallSetBWEListener (None :: nat option))
   \<and> isInProbe (runCalls specObserverOps exactFloat64
        [CallHandleREMB 10 11 1000000 2000000 100 0,
         CallHandleREMB 20 21 3000000 2000000 100 0,
         CallSetBWEListener None] exampleProbing)
   \<and> committedChannelCapacity (runCalls specObserverOps exactFloat64
        [CallHandleREMB 10 11 1000000 2000000 100 0,
         CallHandleREMB 20 21 3000000 2000000 100 0,
         CallSetBWEListener None] exampleProbing) = 100000000
   \<and> committedChannelCapacity (snd (ProbeClusterDone specObserverOps examplePCI
        (runCalls specObserverOps exactFloat64
          [CallHandleREMB 10 11 1000000 2000000 100 0,
           CallHandleREMB 20 21 3000000 2000000 100 0,
           CallSetBWEListener None] exampleProbing))) = 100000000"
proof -
  have probing: "isInProbe exampleProbing"
    and capacity: "committedChannelCapacity exampleProbing = 100000000"
    by (simp_all add: example_defs method_defs)
  have no_reset: "\<forall>c \<in> set [CallHandleREMB 10 11 1000000 2000000 100 0,
         CallHandleREMB 20 21 3000000 2000000 100 0,
         CallSetBWEListener (None :: nat option)]. \<not> isReset c"
    by simp
  have finished: "committedChannelCapacity (snd (ProbeClusterDone specObserverOps examplePCI
        (runCalls specObserverOps exactFloat64
          [CallHandleREMB 10 11 1000000 2000000 100 0,
           CallHandleREMB 20 21 3000000 2000000 100 0,
           CallSetBWEListener None] exampleProbing))) = 100000000"
    by (simp add: example_defs method_defs)
  from no_commit_in_probe [OF probing no_reset, where ops = specObserverOps
      and F = exactFloat64 and pci = examplePCI and now = 30] capacity probing finished
  show ?thesis by simp
qed

text \<open>
  Claim C10 as stated fails: during a probe the committed capacity changes at \<open>Reset\<close>
  as well, and downward there. A first probe has raised the capacity to 200,000,000
  and a second probe is in flight; \<open>Reset\<close> puts the capacity back to 100,000,000 and
  ends the probe without \<open>ProbeClusterDone\<close>.
\<close>

theorem no_commit_in_probe_counterexample:
  "isInProbe exampleProbeHigh
   \<and> committedChannelCapacity exampleProbeHigh = 200000000
   \<and> committedChannelCapacity (Reset specObserverOps 50 exampleProbeHigh) = 100000000
   \<and> committedChannelCapacity (Reset specObserverOps 50 exampleProbeHigh)
        <s committedChannelCapacity exampleProbeHigh
   \<and> isInProbe (Reset specObserverOps 50 exampleProbeHigh) = False"
  by (simp add: example_defs method_defs)

subsection \<open>The hangover and the clamp, seen from the feedback handler\<close>

text \<open>
  A feedback that finds the controller in CongestedHangover before
  \<open>CongestedMinDuration\<close> has passed never leaves it in state None, whatever the trend
  and whether or not a probe is in flight.
\<close>

lemma HandleREMB_hangover_holds:
  assumes "congestionState r = CongestionStateCongestedHangover"
      and "time_Since tsince (congestionStateSwitchedAt r)
             < CongestedMinDuration (Config (params r))"
  shows "congestionState (fst (HandleREMB ops F tsince tnow e u sent nacks r))
           \<noteq> CongestionStateNone"
proof (cases "isInProbe r")
  case True
  with assms(1) show ?thesis by (simp add: HandleREMB_def Let_def)
next
  case False
  then have unfrozen: "\<not> (isInProbe r \<and> congestionState r \<noteq> CongestionStateNone)"
    by simp
  let ?r = "withSamples ops e u sent nacks r"
  obtain trend reason where trend: "GetTrend ops (channelObserver ?r) = (trend, reason)"
    by (cases "GetTrend ops (channelObserver ?r)")
  show ?thesis
  proof (cases "trend = channelTrendCongesting")
    case False
    show ?thesis
      unfolding HandleREMB_unfrozen [OF unfrozen] SM_not_congesting [OF trend False]
      using assms by (simp add: withSamples_simps)
  next
    case True
    obtain ok rc where e:
      "estimateAvailableChannelCapacity ops F reason
         (logw Debugw ''remote bwe, channel congesting'' ?r) = (ok, rc)"
      by (cases "estimateAvailableChannelCapacity ops F reason
         (logw Debugw ''remote bwe, channel congesting'' ?r)")
    note kept = estimate_effect(2) [OF e, unfolded logw_simps withSamples_simps]
    from trend True
    have t: "GetTrend ops (channelObserver ?r) = (channelTrendCongesting, reason)"
      by simp
    show ?thesis
      unfolding HandleREMB_unfrozen [OF unfrozen] SM_congesting [OF t e]
      using assms(1) kept by (simp add: withSamples_simps updateCongestionState_simps)
  qed
qed

text \<open>
  Whenever a feedback makes the controller commit a capacity, the capacity committed is
  at most the estimate that the feedback has brought.
\<close>

lemma HandleREMB_commit_clamped:
  assumes "applyingMsg \<in> set (newLog r (fst (HandleREMB ops F tsince tnow e u sent nacks r)))"
  shows "committedChannelCapacity (fst (HandleREMB ops F tsince tnow e u sent nacks r)) \<le>s e"
proof (cases "isInProbe r \<and> congestionState r \<noteq> CongestionStateNone")
  case True
  with assms show ?thesis by (simp add: HandleREMB_def Let_def newLog_def)
next
  case False
  note unfrozen = False
  let ?r = "withSamples ops e u sent nacks r"
  obtain trend reason where trend: "GetTrend ops (channelObserver ?r) = (trend, reason)"
    by (cases "GetTrend ops (channelObserver ?r)")
  show ?thesis
  proof (cases "trend = channelTrendCongesting")
    case False
    from assms show ?thesis
      unfolding HandleREMB_unfrozen [OF unfrozen]
        SM_not_congesting [OF trend False]
      by (cases "congestionState r")
         (auto simp add: withSamples_simps updateCongestionState_simps newLog_def msgs_distinct
            split: if_splits)
  next
    case True
    obtain ok rc where e:
      "estimateAvailableChannelCapacity ops F reason
         (logw Debugw ''remote bwe, channel congesting'' ?r) = (ok, rc)"
      by (cases "estimateAvailableChannelCapacity ops F reason
         (logw Debugw ''remote bwe, channel congesting'' ?r)")
    note log = estimate_effect(8) [OF e, unfolded logw_simps withSamples_simps]
    from trend True
    have t: "GetTrend ops (channelObserver ?r) = (channelTrendCongesting, reason)"
      by simp
    have clamp: "ok \<Longrightarrow> committedChannelCapacity rc \<le>s e"
      using e estimateToCommit_le [of ops F reason "logw Debugw ''remote bwe, channel congesting'' ?r"]
      by (auto simp add: estimateAvailableChannelCapacity_def Let_def newChannelObserver_simps
            logw_simps withSamples_simps split: if_splits)
    from assms show ?thesis
      unfolding HandleREMB_unfrozen [OF unfrozen]
        SM_congesting [OF t e]
      using log clamp
      by (cases ok)
         (auto simp add: withSamples_simps updateCongestionState_simps logw_simps newLog_def
            msgs_distinct split: if_splits)
  qed
qed

end
